theory Spec2Isabelle
  imports Complex_Main "HOL-Library.AList"
begin

section \<open>Python values\<close>

text \<open>
  Python numbers are modelled exactly: a \<open>float\<close> is a rational (\<open>0.5\<close> is \<open>1/2\<close>,
  \<open>0.35\<close> is \<open>7/20\<close>), an \<open>int\<close> is an unbounded integer. Rounding of binary floating
  point, infinities and NaN are outside the model.

  Untyped data (dictionary literals, provider payloads of type \<open>Dict[str, Any]\<close>, \<open>None\<close>)
  is a value of \<open>pyobj\<close>; a dictionary keeps its items in insertion order.
\<close>

datatype pyobj =
    PNone
  | PBool bool
  | PNum rat
  | PStr string
  | PList "pyobj list"
  | PDict "(string \<times> pyobj) list"

text \<open>
  Exceptions carry the text that \<open>str(e)\<close> gives. \<open>ValueError\<close> and \<open>KeyError\<close> are
  raised by the code below; \<open>Exception\<close> stands for any other subclass of \<open>Exception\<close>
  that a data provider or an algorithm raises. These are the exceptions that the handler
  \<open>except Exception\<close> of \<open>fetch_data\<close> catches; interrupts and cancellations, which
  derive from \<open>BaseException\<close> only, are outside the model.
\<close>

datatype exn = ValueError string | KeyError string | Exception string

fun str :: "exn \<Rightarrow> string" where
  "str (ValueError m) = m"
| "str (KeyError m) = m"
| "str (Exception m) = m"

section \<open>Habitat scoring (scoring\_v2.py)\<close>

datatype Season = SPRING | SUMMER | FALL

record PlantInventory =
  species :: string
  count :: int
  bloom_seasons :: "Season list"
  is_native :: bool
  is_milkweed :: bool

record PropertyData =
  lat :: rat
  lng :: rat
  grid_hash :: string
  plants :: "PlantInventory list"
  estimated_flower_coverage_pct :: rat
  has_bare_ground :: bool
  bare_ground_sqft :: rat
  has_dead_wood :: bool
  has_brush_pile :: bool
  has_bee_hotel :: bool
  leaves_stems_over_winter :: bool
  neighbors_in_program :: int
  green_space_within_500m :: rat
  distance_to_nearest_habitat_m :: rat
  uses_pesticides :: bool
  pesticide_frequency :: string
  mowing_frequency :: string
  lot_size_sqft :: rat
  impervious_surface_pct :: rat

record ScoreBreakdown =
  floral_score :: rat
  nesting_score :: rat
  connectivity_score :: rat
  connectivity_pioneer :: rat
  management_score :: rat
  floral_diversity :: rat
  floral_coverage :: rat
  floral_spring :: rat
  floral_summer :: rat
  floral_fall :: rat
  floral_milkweed_bonus :: rat
  nesting_ground :: rat
  nesting_cavity :: rat
  nesting_undisturbed :: rat
  impervious_penalty :: rat
  raw_score :: rat
  final_score :: rat
  grade :: string
  confidence :: string
  data_completeness :: rat
  recommendations :: "pyobj list"

text \<open>
  Each category scorer returns a dictionary with a fixed set of string keys; it is a
  record here, the field \<open>fl_total\<close> standing for \<open>scores["total"]\<close> of the floral
  dictionary, \<open>ne_\<close>, \<open>co_\<close> and \<open>mg_\<close> for the nesting, connectivity and
  management dictionaries.
\<close>

record floral_scores =
  fl_diversity :: rat
  fl_coverage :: rat
  fl_spring :: rat
  fl_summer :: rat
  fl_fall :: rat
  fl_milkweed_bonus :: rat
  fl_total :: rat

record nesting_scores =
  ne_ground :: rat
  ne_cavity :: rat
  ne_undisturbed :: rat
  ne_total :: rat

record connectivity_scores =
  co_neighbors :: rat
  co_green_space :: rat
  co_pioneer_bonus :: rat
  co_total :: rat

record management_scores =
  mg_pesticide_free :: rat
  mg_native_proportion :: rat
  mg_total :: rat

subsection \<open>Floral resources\<close>

text \<open>
  The nested loop \<open>for plant in plants: for season in plant.bloom_seasons:
  seasons_covered[season] = True\<close>, started from the all-\<open>False\<close> dictionary.
\<close>

definition seasons_covered :: "PlantInventory list \<Rightarrow> Season \<Rightarrow> bool" where
  "seasons_covered ps =
     fold (\<lambda>plant cov. fold (\<lambda>season c. c(season := True)) (bloom_seasons plant) cov)
       ps (\<lambda>_. False)"

definition score_floral_resources :: "PropertyData \<Rightarrow> floral_scores" where
  "score_floral_resources data =
     (let native_species = length (filter is_native (plants data));
          total_species = length (plants data);
          non_native_bonus =
            min ((rat_of_int (int total_species - int native_species)) * (1 / 2)) 2;
          diversity_base =
            (if native_species \<ge> 10 then 12
             else if native_species \<ge> 7 then 10
             else if native_species \<ge> 5 then 8
             else if native_species \<ge> 3 then 5
             else if native_species \<ge> 1 then 2
             else 0);
          diversity = min (diversity_base + non_native_bonus) 12;
          coverage_pct = estimated_flower_coverage_pct data;
          coverage =
            (if coverage_pct \<ge> 30 then 8
             else if coverage_pct \<ge> 20 then 6
             else if coverage_pct \<ge> 10 then 4
             else if coverage_pct \<ge> 5 then 2
             else 0);
          covered = seasons_covered (plants data);
          spring = (if covered SPRING then 2 else 0);
          summer = (if covered SUMMER then 2 else 0);
          fall = (if covered FALL then 6 else 0);
          milkweed_count = sum_list (map count (filter is_milkweed (plants data)));
          milkweed_bonus =
            (if milkweed_count \<ge> 5 then 5
             else if milkweed_count \<ge> 3 then 4
             else if milkweed_count \<ge> 1 then 3
             else 0)
      in \<lparr> fl_diversity = diversity, fl_coverage = coverage, fl_spring = spring,
           fl_summer = summer, fl_fall = fall, fl_milkweed_bonus = milkweed_bonus,
           fl_total = min (diversity + coverage + spring + summer + fall + milkweed_bonus) 35 \<rparr>)"

subsection \<open>Nesting habitat\<close>

definition score_nesting_habitat :: "PropertyData \<Rightarrow> nesting_scores" where
  "score_nesting_habitat data =
     (let ground =
            (if has_bare_ground data then
               (if bare_ground_sqft data \<ge> 50 then 10
                else if bare_ground_sqft data \<ge> 25 then 7
                else if bare_ground_sqft data \<ge> 10 then 5
                else 3)
             else 0);
          cavity_features =
            (if has_dead_wood data then 4 else 0) + (if has_bee_hotel data then 3 else 0)
            + (if has_brush_pile data then 3 else 0);
          cavity = min cavity_features 10;
          undisturbed_sum =
            (if leaves_stems_over_winter data then 5 else 0)
            + (if mowing_frequency data \<in> set [''monthly'', ''rarely''] then 3
               else if mowing_frequency data = ''biweekly'' then 1 else 0)
            + (if has_brush_pile data then 2 else 0);
          undisturbed = min undisturbed_sum 10
      in \<lparr> ne_ground = ground, ne_cavity = cavity, ne_undisturbed = undisturbed,
           ne_total = ground + cavity + undisturbed \<rparr>)"

subsection \<open>Connectivity\<close>

definition score_connectivity :: "PropertyData \<Rightarrow> connectivity_scores" where
  "score_connectivity data =
     (let neighbors = neighbors_in_program data;
          pioneer_bonus = (if neighbors = 0 then 8 else if neighbors \<le> 2 then 4 else 0);
          neighbor_score =
            (if neighbors = 0 then 0
             else if neighbors \<le> 2 then rat_of_int (neighbors * 2)
             else if neighbors \<ge> 5 then 10
             else if neighbors \<ge> 3 then 7
             else 5);
          green_pct = green_space_within_500m data;
          green_space =
            (if green_pct \<ge> 30 then 10
             else if green_pct \<ge> 20 then 7
             else if green_pct \<ge> 10 then 5
             else if green_pct \<ge> 5 then 3
             else 2)
      in \<lparr> co_neighbors = neighbor_score, co_green_space = green_space,
           co_pioneer_bonus = pioneer_bonus,
           co_total = min (neighbor_score + green_space + pioneer_bonus) 20 \<rparr>)"

subsection \<open>Management\<close>

definition score_management :: "PropertyData \<Rightarrow> management_scores" where
  "score_management data =
     (let pesticide_free =
            (if \<not> uses_pesticides data \<or> pesticide_frequency data = ''never'' then 8
             else if pesticide_frequency data = ''rarely'' then 5
             else if pesticide_frequency data = ''sometimes'' then 2
             else 0);
          total_plants = length (plants data);
          native_proportion =
            (if total_plants > 0 then
               (let native_pct =
                      rat_of_nat (length (filter is_native (plants data)))
                        / rat_of_nat total_plants * 100
                in if native_pct \<ge> 80 then 7
                   else if native_pct \<ge> 60 then 5
                   else if native_pct \<ge> 40 then 3
                   else if native_pct \<ge> 20 then 1
                   else 0)
             else 0)
      in \<lparr> mg_pesticide_free = pesticide_free, mg_native_proportion = native_proportion,
           mg_total = pesticide_free + native_proportion \<rparr>)"

subsection \<open>Impervious penalty, completeness, grade, confidence\<close>

definition THRESHOLD :: rat where
  "THRESHOLD = 22"

definition MAX_PENALTY :: rat where
  "MAX_PENALTY = 10"

definition calculate_impervious_penalty :: "PropertyData \<Rightarrow> rat" where
  "calculate_impervious_penalty data =
     (if impervious_surface_pct data \<le> THRESHOLD then 0
      else - (min ((impervious_surface_pct data - THRESHOLD) * (7 / 20)) MAX_PENALTY))"

definition calculate_data_completeness :: "PropertyData \<Rightarrow> rat" where
  "calculate_data_completeness data =
     (let fields_provided =
            (if length (plants data) > 0 then 1 else 0)
          + (if estimated_flower_coverage_pct data > 0 then 1 else 0)
          + (if has_bare_ground data \<or> bare_ground_sqft data > 0 then 1 else 0)
          + (if has_dead_wood data \<or> has_bee_hotel data \<or> has_brush_pile data then 1 else 0)
          + (if leaves_stems_over_winter data then 1 else 0)
          + (if mowing_frequency data \<noteq> ''weekly'' then 1 else 0)
          + (if pesticide_frequency data \<noteq> ''never'' then 1 else 0)
          + (if lot_size_sqft data \<noteq> 5000 then 1 else 0)
          + (if impervious_surface_pct data \<noteq> 30 then 1 else 0)
          + (if neighbors_in_program data > 0 then 1 else (0::rat))
      in (fields_provided / 10) * 100)"

definition get_grade :: "rat \<Rightarrow> string" where
  "get_grade score =
     (if score \<ge> 90 then ''A+''
      else if score \<ge> 80 then ''A''
      else if score \<ge> 70 then ''B''
      else if score \<ge> 60 then ''C''
      else if score \<ge> 50 then ''D''
      else ''F'')"

definition get_confidence :: "rat \<Rightarrow> string" where
  "get_confidence completeness =
     (if completeness \<ge> 70 then ''high''
      else if completeness \<ge> 40 then ''medium''
      else ''low'')"

subsection \<open>Recommendations\<close>

text \<open>
  Each recommendation is a dictionary literal of the source. The degree sign of the
  source text is its two UTF-8 bytes.
\<close>

definition generate_recommendations :: "PropertyData \<Rightarrow> 'a ScoreBreakdown_scheme \<Rightarrow> pyobj list" where
  "generate_recommendations data scores =
     (let has_fall_blooms = list_ex (\<lambda>p. FALL \<in> set (bloom_seasons p)) (plants data);
          has_milkweed = list_ex is_milkweed (plants data)
      in (if \<not> has_fall_blooms then
            [PDict [(''priority'', PStr ''critical''),
              (''title'', PStr ''September Nectar Gap''),
              (''message'', PStr ''Add fall-blooming plants for monarch migration''),
              (''plants'', PList [PStr ''Rabbitbrush'', PStr ''Goldenrod'', PStr ''Asters'']),
              (''impact'', PStr ''+6 points'')]]
          else [])
       @ (if \<not> has_milkweed then
            [PDict [(''priority'', PStr ''high''),
              (''title'', PStr ''Missing Host Plant''),
              (''message'', PStr ''Monarchs can only lay eggs on milkweed''),
              (''plants'', PList [PStr ''Showy Milkweed'', PStr ''Narrowleaf Milkweed'']),
              (''impact'', PStr ''+3-5 points'')]]
          else [])
       @ (if nesting_score scores < 15 then
            (if \<not> has_bare_ground data then
               [PDict [(''priority'', PStr ''medium''),
                 (''title'', PStr ''Ground Nesting Habitat''),
                 (''message'', PStr ''70% of native bees nest in bare ground''),
                 (''action'', PStr ''Leave a patch of undisturbed bare soil''),
                 (''impact'', PStr ''+5-10 points'')]]
             else [])
            @ (if \<not> leaves_stems_over_winter data then
               [PDict [(''priority'', PStr ''medium''),
                 (''title'', PStr ''Overwintering Habitat''),
                 (''message'', PStr ''Leave stems and leaves through winter''),
                 (''action'', PStr (''Delay spring cleanup until temps exceed 50''
                                    @ [CHR 0xC2, CHR 0xB0] @ ''F'')),
                 (''impact'', PStr ''+5 points'')]]
             else [])
          else [])
       @ (if neighbors_in_program data = 0 then
            [PDict [(''priority'', PStr ''medium''),
              (''title'', PStr ''Invite a Neighbor''),
              (''message'', PStr ''Connected habitats are more effective''),
              (''action'', PStr ''Invite a neighbor to join the program''),
              (''impact'', PStr ''+3-10 points'')]]
          else [])
       @ (if uses_pesticides data \<and> pesticide_frequency data \<in> set [''sometimes'', ''often''] then
            [PDict [(''priority'', PStr ''high''),
              (''title'', PStr ''Reduce Pesticides''),
              (''message'', PStr ''Pesticides harm pollinators directly''),
              (''action'', PStr ''Try integrated pest management instead''),
              (''impact'', PStr ''+5-8 points'')]]
          else []))"

subsection \<open>The main scoring function\<close>

text \<open>
  \<open>score_property\<close> starts from the default \<open>ScoreBreakdown()\<close> and assigns its fields
  in the order of the source; \<open>connectivity_pioneer\<close> keeps its default.
\<close>

definition default_breakdown :: ScoreBreakdown where
  "default_breakdown =
     \<lparr> floral_score = 0, nesting_score = 0, connectivity_score = 0, connectivity_pioneer = 0,
       management_score = 0, floral_diversity = 0, floral_coverage = 0, floral_spring = 0,
       floral_summer = 0, floral_fall = 0, floral_milkweed_bonus = 0, nesting_ground = 0,
       nesting_cavity = 0, nesting_undisturbed = 0, impervious_penalty = 0, raw_score = 0,
       final_score = 0, grade = ''F'', confidence = ''low'', data_completeness = 0,
       recommendations = [] \<rparr>"

definition score_property :: "PropertyData \<Rightarrow> ScoreBreakdown" where
  "score_property data =
     (let floral = score_floral_resources data;
          nesting = score_nesting_habitat data;
          connectivity = score_connectivity data;
          management = score_management data;
          impervious = calculate_impervious_penalty data;
          b1 = default_breakdown
                 \<lparr> floral_score := fl_total floral,
                   floral_diversity := fl_diversity floral,
                   floral_coverage := fl_coverage floral,
                   floral_spring := fl_spring floral,
                   floral_summer := fl_summer floral,
                   floral_fall := fl_fall floral,
                   floral_milkweed_bonus := fl_milkweed_bonus floral,
                   nesting_score := ne_total nesting,
                   nesting_ground := ne_ground nesting,
                   nesting_cavity := ne_cavity nesting,
                   nesting_undisturbed := ne_undisturbed nesting,
                   connectivity_score := co_total connectivity,
                   management_score := mg_total management,
                   impervious_penalty := impervious \<rparr>;
          b2 = b1 \<lparr> raw_score := floral_score b1 + nesting_score b1
                                   + connectivity_score b1 + management_score b1 \<rparr>;
          b3 = b2 \<lparr> final_score := max 0 (min 100 (raw_score b2 + impervious)) \<rparr>;
          b4 = b3 \<lparr> grade := get_grade (final_score b3) \<rparr>;
          b5 = b4 \<lparr> data_completeness := calculate_data_completeness data \<rparr>;
          b6 = b5 \<lparr> confidence := get_confidence (data_completeness b5) \<rparr>
      in b6 \<lparr> recommendations := generate_recommendations data b6 \<rparr>)"

text \<open>
  The \<open>PropertyData\<close> of the source's defaults, at a given position.
\<close>

definition default_property :: "rat \<Rightarrow> rat \<Rightarrow> PropertyData" where
  "default_property la lo =
     \<lparr> lat = la, lng = lo, grid_hash = [], plants = [],
       estimated_flower_coverage_pct = 0, has_bare_ground = False, bare_ground_sqft = 0,
       has_dead_wood = False, has_brush_pile = False, has_bee_hotel = False,
       leaves_stems_over_winter = False, neighbors_in_program = 0,
       green_space_within_500m = 0, distance_to_nearest_habitat_m = 1000,
       uses_pesticides = False, pesticide_frequency = ''never'',
       mowing_frequency = ''weekly'', lot_size_sqft = 5000, impervious_surface_pct = 30 \<rparr>"

section \<open>Model configuration (scoring\_config.py)\<close>

definition ACTIVE_MODEL_VERSION :: string where
  "ACTIVE_MODEL_VERSION = ''2.0.0''"

text \<open>
  A row \<open>{k: lo, "points": pts}\<close> of a tier table of the configuration.
\<close>

definition tier :: "string \<Rightarrow> rat \<Rightarrow> rat \<Rightarrow> pyobj" where
  "tier k lo pts = PDict [(k, PNum lo), (''points'', PNum pts)]"

definition SCORING_MODELS :: "(string \<times> pyobj) list" where
  "SCORING_MODELS =
   [(''2.0.0'', PDict
      [(''name'', PStr ''Research-Validated v2''),
       (''description'', PStr ''Based on ESTIMAP, InVEST, Berlin study''),
       (''created_at'', PStr ''2025-12-21''),
       (''weights'', PDict
          [(''floral'', PNum 35), (''nesting'', PNum 30),
           (''connectivity'', PNum 20), (''management'', PNum 15)]),
       (''floral_config'', PDict
          [(''diversity_max'', PNum 12), (''coverage_max'', PNum 8),
           (''spring_points'', PNum 2), (''summer_points'', PNum 2),
           (''fall_points'', PNum 6), (''milkweed_max'', PNum 5),
           (''diversity_tiers'', PList
              [tier ''min_species'' 10 12, tier ''min_species'' 7 10,
               tier ''min_species'' 5 8, tier ''min_species'' 3 5,
               tier ''min_species'' 1 2]),
           (''coverage_tiers'', PList
              [tier ''min_pct'' 30 8, tier ''min_pct'' 20 6,
               tier ''min_pct'' 10 4, tier ''min_pct'' 5 2])]),
       (''nesting_config'', PDict
          [(''ground_max'', PNum 10), (''cavity_max'', PNum 10),
           (''undisturbed_max'', PNum 10),
           (''ground_tiers'', PList
              [tier ''min_sqft'' 50 10, tier ''min_sqft'' 25 7,
               tier ''min_sqft'' 10 5, tier ''min_sqft'' 1 3]),
           (''dead_wood_points'', PNum 4), (''bee_hotel_points'', PNum 3),
           (''brush_pile_points'', PNum 3), (''hollow_stems_points'', PNum 2),
           (''leaves_winter_points'', PNum 5), (''leaf_litter_points'', PNum 2),
           (''mowing_points'', PDict
              [(''never'', PNum 3), (''monthly'', PNum 2),
               (''biweekly'', PNum 1), (''weekly'', PNum 0)])]),
       (''connectivity_config'', PDict
          [(''pioneer_bonus'', PNum 8), (''early_adopter_bonus'', PNum 4),
           (''neighbor_tiers'', PList
              [tier ''min_neighbors'' 5 10, tier ''min_neighbors'' 3 7,
               tier ''min_neighbors'' 2 5, tier ''min_neighbors'' 1 3]),
           (''green_space_tiers'', PList
              [PDict [(''level'', PStr ''large''), (''points'', PNum 10)],
               PDict [(''level'', PStr ''medium''), (''points'', PNum 7)],
               PDict [(''level'', PStr ''small''), (''points'', PNum 4)],
               PDict [(''level'', PStr ''none''), (''points'', PNum 2)]])]),
       (''management_config'', PDict
          [(''pesticide_free_max'', PNum 8), (''native_pct_max'', PNum 7),
           (''pesticide_points'', PDict
              [(''never'', PNum 8), (''rarely'', PNum 5),
               (''sometimes'', PNum 2), (''often'', PNum 0)]),
           (''native_tiers'', PList
              [tier ''min_pct'' 80 7, tier ''min_pct'' 60 5,
               tier ''min_pct'' 40 3, tier ''min_pct'' 20 1])]),
       (''impervious_config'', PDict
          [(''threshold_pct'', PNum 22), (''penalty_per_pct'', PNum (7 / 20)),
           (''max_penalty'', PNum 10)]),
       (''grade_thresholds'', PDict
          [(''A+'', PNum 90), (''A'', PNum 85), (''A-'', PNum 80),
           (''B+'', PNum 75), (''B'', PNum 70), (''B-'', PNum 65),
           (''C+'', PNum 60), (''C'', PNum 55), (''C-'', PNum 50),
           (''D'', PNum 40)]),
       (''citations'', PList
          [PStr (''ESTIMAP-Pollination model (Zulian et al., 2013) R''
                 @ [CHR 0xC2, CHR 0xB2] @ ''=0.80''),
           PStr (''InVEST Pollination Model (Sharp et al., 2020) R''
                 @ [CHR 0xC2, CHR 0xB2] @ ''=0.65-0.80''),
           PStr (''Berlin impervious study (Fortel et al., 2014) R''
                 @ [CHR 0xC2, CHR 0xB2] @ ''=0.84''),
           PStr ''September deficit finding (Murray Corridor, 2025) 84.5%''])]),
    (''2.1.0-beta'', PDict
      [(''name'', PStr ''Adjusted Fall Weight''),
       (''description'', PStr ''Testing higher fall bloom weight''),
       (''created_at'', PStr ''2025-12-21''),
       (''weights'', PDict
          [(''floral'', PNum 40), (''nesting'', PNum 25),
           (''connectivity'', PNum 20), (''management'', PNum 15)]),
       (''floral_config'', PDict [(''fall_points'', PNum 8)])])]"

text \<open>
  \<open>d[k]\<close> raises \<open>KeyError\<close> on a missing key; \<open>d.get(k, default)\<close> evaluates its
  default before the lookup, so \<open>get_active_model\<close> raises when the fallback version
  is missing, whatever the active version is.
\<close>

definition subscript :: "(string \<times> pyobj) list \<Rightarrow> string \<Rightarrow> exn + pyobj" where
  "subscript d k = (case map_of d k of None \<Rightarrow> Inl (KeyError k) | Some v \<Rightarrow> Inr v)"

definition get_active_model :: "exn + pyobj" where
  "get_active_model =
     (case subscript SCORING_MODELS ''2.0.0'' of
        Inl e \<Rightarrow> Inl e
      | Inr fallback \<Rightarrow>
          Inr (case map_of SCORING_MODELS ACTIVE_MODEL_VERSION of
                 Some m \<Rightarrow> m
               | None \<Rightarrow> fallback))"

definition get_model :: "string \<Rightarrow> pyobj" where
  "get_model version =
     (case map_of SCORING_MODELS version of Some m \<Rightarrow> m | None \<Rightarrow> PNone)"

definition get_model_version :: string where
  "get_model_version = ACTIVE_MODEL_VERSION"

text \<open>
  Reading a value of a model by a path of keys, \<open>model.get(k, {}).get(k')\<close> as the
  methodology route reads \<open>impervious_config\<close>; \<open>None\<close> for a missing key.
\<close>

fun dict_get :: "pyobj \<Rightarrow> string \<Rightarrow> pyobj" where
  "dict_get (PDict d) k = (case map_of d k of Some v \<Rightarrow> v | None \<Rightarrow> PNone)"
| "dict_get _ k = PNone"

fun dict_path :: "pyobj \<Rightarrow> string list \<Rightarrow> pyobj" where
  "dict_path v [] = v"
| "dict_path v (k # ks) = dict_path (dict_get v k) ks"

definition active_model_value :: "string list \<Rightarrow> pyobj" where
  "active_model_value ks =
     (case get_active_model of Inl e \<Rightarrow> PNone | Inr m \<Rightarrow> dict_path m ks)"

section \<open>The aggregation engine (core/engine.py)\<close>

subsection \<open>Habitat grades\<close>

datatype HabitatGrade = A_PLUS | A | B | C | D | F

fun letter :: "HabitatGrade \<Rightarrow> string" where
  "letter A_PLUS = ''A+''"
| "letter A = ''A''"
| "letter B = ''B''"
| "letter C = ''C''"
| "letter D = ''D''"
| "letter F = ''F''"

fun description :: "HabitatGrade \<Rightarrow> string" where
  "description A_PLUS = ''Premium Pollinator Site''"
| "description A = ''Excellent Potential''"
| "description B = ''Good Potential''"
| "description C = ''Moderate Potential''"
| "description D = ''Limited Potential''"
| "description F = ''Challenging Site''"

fun min_score :: "HabitatGrade \<Rightarrow> rat" where
  "min_score A_PLUS = 90"
| "min_score A = 80"
| "min_score B = 70"
| "min_score C = 60"
| "min_score D = 50"
| "min_score F = 0"

text \<open>Iterating the enumeration gives its members in the order of their definition.\<close>

definition HabitatGrade_members :: "HabitatGrade list" where
  "HabitatGrade_members = [A_PLUS, A, B, C, D, F]"

definition from_score :: "rat \<Rightarrow> HabitatGrade" where
  "from_score score =
     (case find (\<lambda>g. score \<ge> min_score g) HabitatGrade_members of
        Some g \<Rightarrow> g
      | None \<Rightarrow> F)"

subsection \<open>Locations\<close>

text \<open>
  A location as the engine sees it after construction. The fingerprint \<open>grid_hash\<close> is a
  field: its derivation from the rounded coordinates formats floating-point numbers and
  is not part of the model.
\<close>

record Location =
  lat :: rat
  lng :: rat
  name :: string
  address :: string
  grid_hash :: string

subsection \<open>The cache manager\<close>

text \<open>
  Time is an integer number of microseconds, the resolution of \<open>datetime\<close>; \<open>now\<close> is the
  value \<open>datetime.utcnow()\<close> returns in the call. \<open>timedelta(hours=h)\<close> is the exact
  duration; the range limit of \<open>timedelta\<close> is not modelled.

  The dictionary \<open>_cache\<close> is the association list \<open>cache\<close>, in insertion order and with
  distinct keys: \<open>AList.update\<close> overwrites in place or appends, \<open>AList.delete\<close> removes.
  An entry \<open>{"data": d, "timestamp": t}\<close> is a record.
\<close>

record cache_entry =
  data :: pyobj
  timestamp :: int

record cache_stats =
  hits :: int
  misses :: int
  evictions :: int

record CacheManager =
  ttl_hours :: int
  max_entries :: int
  cache :: "(string \<times> cache_entry) list"
  stats :: cache_stats

definition CacheManager_init :: "int \<Rightarrow> int \<Rightarrow> CacheManager" where
  "CacheManager_init ttl maxe =
     \<lparr> ttl_hours = ttl, max_entries = maxe, cache = [],
       stats = \<lparr> hits = 0, misses = 0, evictions = 0 \<rparr> \<rparr>"

definition timedelta_hours :: "int \<Rightarrow> int" where
  "timedelta_hours h = h * 3600000000"

definition make_key :: "string \<Rightarrow> string \<Rightarrow> string" where
  "make_key source gh = source @ '':'' @ gh"

definition CacheManager_get :: "int \<Rightarrow> string \<Rightarrow> Location \<Rightarrow> CacheManager \<Rightarrow> pyobj \<times> CacheManager" where
  "CacheManager_get now source location c =
     (let key = make_key source (grid_hash location) in
      case map_of (cache c) key of
        Some entry \<Rightarrow>
          (let age = now - timestamp entry in
           if age < timedelta_hours (ttl_hours c) then
             (data entry, c \<lparr> stats := (stats c) \<lparr> hits := hits (stats c) + 1 \<rparr> \<rparr>)
           else
             (PNone, c \<lparr> cache := AList.delete key (cache c),
                          stats := (stats c) \<lparr> misses := misses (stats c) + 1 \<rparr> \<rparr>))
      | None \<Rightarrow> (PNone, c \<lparr> stats := (stats c) \<lparr> misses := misses (stats c) + 1 \<rparr> \<rparr>))"

text \<open>
  \<open>min(keys, key=f)\<close> keeps the first of the smallest elements and raises \<open>ValueError\<close>
  on an empty sequence. The key function of \<open>set\<close> looks each key up in the dictionary
  it came from, which gives the entry stored beside it.
\<close>

fun min_from :: "('a \<Rightarrow> int) \<Rightarrow> 'a \<Rightarrow> 'a list \<Rightarrow> 'a" where
  "min_from f best [] = best"
| "min_from f best (x # xs) = min_from f (if f x < f best then x else best) xs"

definition py_min :: "('a \<Rightarrow> int) \<Rightarrow> 'a list \<Rightarrow> exn + 'a" where
  "py_min f xs =
     (case xs of
        [] \<Rightarrow> Inl (ValueError ''min() arg is an empty sequence'')
      | x # rest \<Rightarrow> Inr (min_from f x rest))"

definition oldest_key :: "(string \<times> cache_entry) list \<Rightarrow> exn + string" where
  "oldest_key items =
     (case py_min (\<lambda>item. timestamp (snd item)) items of
        Inl e \<Rightarrow> Inl e
      | Inr item \<Rightarrow> Inr (fst item))"

text \<open>
  \<open>store_entry\<close> is the last statement of \<open>set\<close>, the assignment of the new entry
  to its key. \<open>set\<close> raises before it changes anything when \<open>min\<close> does; then the
  cache manager is as it was, and the result is \<open>Inl\<close>.
\<close>

definition store_entry :: "int \<Rightarrow> string \<Rightarrow> Location \<Rightarrow> pyobj \<Rightarrow> CacheManager \<Rightarrow> CacheManager" where
  "store_entry now source location d c =
     (let key = make_key source (grid_hash location) in
      c \<lparr> cache := AList.update key \<lparr> data = d, timestamp = now \<rparr> (cache c) \<rparr>)"

definition CacheManager_set :: "int \<Rightarrow> string \<Rightarrow> Location \<Rightarrow> pyobj \<Rightarrow> CacheManager \<Rightarrow> exn + CacheManager" where
  "CacheManager_set now source location d c =
     (if int (length (cache c)) \<ge> max_entries c then
        (case oldest_key (cache c) of
           Inl e \<Rightarrow> Inl e
         | Inr k \<Rightarrow>
             Inr (store_entry now source location d
                    (c \<lparr> cache := AList.delete k (cache c),
                         stats := (stats c) \<lparr> evictions := evictions (stats c) + 1 \<rparr> \<rparr>)))
      else Inr (store_entry now source location d c))"

definition CacheManager_clear :: "CacheManager \<Rightarrow> CacheManager" where
  "CacheManager_clear c = c \<lparr> cache := [] \<rparr>"

subsection \<open>Sources, algorithms and the engine\<close>

text \<open>
  What lies outside the engine (the providers, the network, the clock) is a state
  \<open>'x world\<close> that a provider's \<open>fetch\<close> may change in any way, the time included.
  A \<open>fetch\<close> returns a payload or raises an \<open>Exception\<close>; an algorithm's \<open>calculate\<close>
  returns a result of the type \<open>'r\<close> or raises.
\<close>

record 'x world =
  utcnow :: int
  outside :: 'x

record 'x DataSource =
  source_name :: string
  fetch :: "Location \<Rightarrow> 'x world \<Rightarrow> (exn + pyobj) \<times> 'x world"

text \<open>
  The bundle \<open>fetch_data\<close> returns maps \<open>"_location"\<close> to the location and a source name
  to a payload.
\<close>

datatype bundle_value = Loc Location | Val pyobj

type_synonym data_bundle = "string \<rightharpoonup> bundle_value"

record 'r ScoringAlgorithm =
  algorithm_name :: string
  tool :: string
  calculate :: "Location \<Rightarrow> data_bundle \<Rightarrow> exn + 'r"

text \<open>
  The engine's \<open>_sources\<close>, \<open>_algorithms\<close> and \<open>_cache\<close>; the registries are dictionaries
  in insertion order.
\<close>

record ('x, 'r) PollinatorEngine =
  sources :: "(string \<times> 'x DataSource) list"
  algorithms :: "(string \<times> 'r ScoringAlgorithm) list"
  engine_cache :: CacheManager

definition PollinatorEngine_init :: "int \<Rightarrow> ('x, 'r) PollinatorEngine" where
  "PollinatorEngine_init cache_ttl_hours =
     \<lparr> sources = [], algorithms = [],
       engine_cache = CacheManager_init cache_ttl_hours 1000 \<rparr>"

definition register_source :: "'x DataSource \<Rightarrow> ('x, 'r) PollinatorEngine \<Rightarrow> ('x, 'r) PollinatorEngine" where
  "register_source source e = e \<lparr> sources := AList.update (source_name source) source (sources e) \<rparr>"

definition register_algorithm :: "'r ScoringAlgorithm \<Rightarrow> ('x, 'r) PollinatorEngine \<Rightarrow> ('x, 'r) PollinatorEngine" where
  "register_algorithm algorithm e =
     e \<lparr> algorithms := AList.update (algorithm_name algorithm) algorithm (algorithms e) \<rparr>"

definition list_sources :: "('x, 'r) PollinatorEngine \<Rightarrow> string list" where
  "list_sources e = map fst (sources e)"

definition list_algorithms :: "('x, 'r) PollinatorEngine \<Rightarrow> string list" where
  "list_algorithms e = map fst (algorithms e)"

definition error_payload :: "exn \<Rightarrow> pyobj" where
  "error_payload e = PDict [(''error'', PStr (str e))]"

text \<open>
  One turn of the loop of \<open>fetch_data\<close>, on the bundle, the cache manager and the world.
  The \<open>try\<close> block assigns the result to the bundle and then stores it in the cache; an
  exception of either the fetch or the store leaves the error payload in the bundle.
\<close>

definition fetch_source :: "(string \<times> 'x DataSource) list \<Rightarrow> Location \<Rightarrow> string \<Rightarrow> data_bundle \<times> CacheManager \<times> 'x world \<Rightarrow> data_bundle \<times> CacheManager \<times> 'x world" where
  "fetch_source srcs location source_name' st =
     (case st of (bundle, c, w) \<Rightarrow>
      (case map_of srcs source_name' of
         None \<Rightarrow> (bundle, c, w)
       | Some source \<Rightarrow>
           (case CacheManager_get (utcnow w) source_name' location c of (cached, c1) \<Rightarrow>
            if cached \<noteq> PNone then (bundle(source_name' \<mapsto> Val cached), c1, w)
            else
              (case fetch source location w of
                 (Inl e, w') \<Rightarrow> (bundle(source_name' \<mapsto> Val (error_payload e)), c1, w')
               | (Inr result, w') \<Rightarrow>
                   (case CacheManager_set (utcnow w') source_name' location result c1 of
                      Inl e \<Rightarrow> (bundle(source_name' \<mapsto> Val (error_payload e)), c1, w')
                    | Inr c2 \<Rightarrow> (bundle(source_name' \<mapsto> Val result), c2, w'))))))"

fun fetch_loop :: "(string \<times> 'x DataSource) list \<Rightarrow> Location \<Rightarrow> string list \<Rightarrow> data_bundle \<times> CacheManager \<times> 'x world \<Rightarrow> data_bundle \<times> CacheManager \<times> 'x world" where
  "fetch_loop srcs location [] st = st"
| "fetch_loop srcs location (n # ns) st = fetch_loop srcs location ns (fetch_source srcs location n st)"

text \<open>
  \<open>sources or list(self._sources.keys())\<close>: \<open>None\<close> and the empty list both stand for
  every registered source.
\<close>

definition requested_sources :: "string list option \<Rightarrow> ('x, 'r) PollinatorEngine \<Rightarrow> string list" where
  "requested_sources srcs e =
     (case srcs of
        None \<Rightarrow> map fst (sources e)
      | Some [] \<Rightarrow> map fst (sources e)
      | Some ns \<Rightarrow> ns)"

definition fetch_data :: "Location \<Rightarrow> string list option \<Rightarrow> ('x, 'r) PollinatorEngine \<Rightarrow> 'x world \<Rightarrow> data_bundle \<times> ('x, 'r) PollinatorEngine \<times> 'x world" where
  "fetch_data location srcs e w =
     (case fetch_loop (sources e) location (requested_sources srcs e)
             ([''_location'' \<mapsto> Loc location], engine_cache e, w) of
        (bundle, c, w') \<Rightarrow> (bundle, e \<lparr> engine_cache := c \<rparr>, w'))"

text \<open>
  \<open>score\<close> returns the result or the exception raised, with the engine and the world as
  the call leaves them.
\<close>

definition score :: "Location \<Rightarrow> string \<Rightarrow> ('x, 'r) PollinatorEngine \<Rightarrow> 'x world \<Rightarrow> (exn + 'r) \<times> ('x, 'r) PollinatorEngine \<times> 'x world" where
  "score location algorithm e w =
     (case map_of (algorithms e) algorithm of
        None \<Rightarrow> (Inl (ValueError (''Unknown algorithm: '' @ algorithm)), e, w)
      | Some algo \<Rightarrow>
          (case fetch_data location None e w of
             (bundle, e', w') \<Rightarrow> (calculate algo location bundle, e', w')))"

text \<open>
  \<open>batch_score\<close> scores the locations in order and stops at the first exception.
\<close>

fun batch_score :: "Location list \<Rightarrow> string \<Rightarrow> ('x, 'r) PollinatorEngine \<Rightarrow> 'x world \<Rightarrow> (exn + 'r list) \<times> ('x, 'r) PollinatorEngine \<times> 'x world" where
  "batch_score [] algorithm e w = (Inr [], e, w)"
| "batch_score (l # ls) algorithm e w =
     (case score l algorithm e w of
        (Inl ex, e', w') \<Rightarrow> (Inl ex, e', w')
      | (Inr r, e', w') \<Rightarrow>
          (case batch_score ls algorithm e' w' of
             (Inl ex, e'', w'') \<Rightarrow> (Inl ex, e'', w'')
           | (Inr rs, e'', w'') \<Rightarrow> (Inr (r # rs), e'', w'')))"

section \<open>Grade tiers\<close>

text \<open>
  The tier of a grade is its position in the enumeration, counted from the lowest
  grade: \<open>F\<close> is tier 0 and \<open>A_PLUS\<close> tier 5.
\<close>

definition grade_rank :: "HabitatGrade \<Rightarrow> nat" where
  "grade_rank g = length (takeWhile (\<lambda>h. h \<noteq> g) (rev HabitatGrade_members))"

section \<open>Example values\<close>

text \<open>
  A location and a cache at its capacity of two entries, the entry of source \<open>a\<close> older
  than the entry of source \<open>b\<close>; the theorems below are instantiated at them.
\<close>

definition example_location :: Location where
  "example_location = \<lparr> lat = 0, lng = 0, name = [], address = [], grid_hash = ''h'' \<rparr>"

definition example_cache :: CacheManager where
  "example_cache =
     \<lparr> ttl_hours = 24, max_entries = 2,
       cache = [(''a:h'', \<lparr> data = PStr ''x'', timestamp = 1 \<rparr>),
                (''b:h'', \<lparr> data = PStr ''y'', timestamp = 2 \<rparr>)],
       stats = \<lparr> hits = 0, misses = 0, evictions = 0 \<rparr> \<rparr>"

text \<open>
  A provider that always raises and one that always returns a payload, each taking ten
  microseconds; an engine with both registered, the failing one first; and the same
  engine with a stale cache entry of the failing provider.
\<close>

definition failing_source :: "unit DataSource" where
  "failing_source =
     \<lparr> source_name = ''bad'',
       fetch = (\<lambda>location w. (Inl (Exception ''boom''), w \<lparr> utcnow := utcnow w + 10 \<rparr>)) \<rparr>"

definition working_source :: "unit DataSource" where
  "working_source =
     \<lparr> source_name = ''ok'',
       fetch = (\<lambda>location w. (Inr (PDict [(''v'', PNum 1)]), w \<lparr> utcnow := utcnow w + 10 \<rparr>)) \<rparr>"

definition example_engine :: "(unit, unit) PollinatorEngine" where
  "example_engine =
     register_source working_source (register_source failing_source (PollinatorEngine_init 24))"

definition stale_engine :: "(unit, unit) PollinatorEngine" where
  "stale_engine =
     example_engine \<lparr> engine_cache := (engine_cache example_engine)
        \<lparr> cache := [(''bad:h'', \<lparr> data = PStr ''old'', timestamp = 0 \<rparr>)] \<rparr> \<rparr>"

text \<open>
  An algorithm that always returns a result, registered in the engine with the stale
  cache entry; and a garden with one milkweed plant in bloom all year and every nesting
  feature, on a lot without impervious surface.
\<close>

definition example_algorithm :: "unit ScoringAlgorithm" where
  "example_algorithm =
     \<lparr> algorithm_name = ''homeowner_v1'', tool = ''pollinator_path'',
       calculate = (\<lambda>location b. Inr ()) \<rparr>"

definition scoring_engine :: "(unit, unit) PollinatorEngine" where
  "scoring_engine = register_algorithm example_algorithm stale_engine"

definition example_garden :: PropertyData where
  "example_garden =
     (default_property 0 0)
       \<lparr> plants := [\<lparr> species = ''Showy Milkweed'', count = 5,
                       bloom_seasons = [SPRING, SUMMER, FALL],
                       is_native = True, is_milkweed = True \<rparr>],
         estimated_flower_coverage_pct := 30,
         has_bare_ground := True, bare_ground_sqft := 50,
         has_dead_wood := True, has_brush_pile := True, has_bee_hotel := True,
         leaves_stems_over_winter := True, mowing_frequency := ''monthly'',
         impervious_surface_pct := 0 \<rparr>"

section \<open>Properties of the scoring computation\<close>

lemma grade_rank_simps:
  "grade_rank F = 0" "grade_rank D = 1" "grade_rank C = 2" "grade_rank B = 3"
  "grade_rank A = 4" "grade_rank A_PLUS = 5"
  by (simp_all add: grade_rank_def HabitatGrade_members_def)

lemma from_score_cases:
  "from_score s =
     (if s \<ge> 90 then A_PLUS else if s \<ge> 80 then A else if s \<ge> 70 then B
      else if s \<ge> 60 then C else if s \<ge> 50 then D else F)"
  by (simp add: from_score_def HabitatGrade_members_def)

lemma get_grade_letter: "get_grade s = letter (from_score s)"
  by (simp add: from_score_cases get_grade_def)

lemma from_score_mono:
  "s1 \<le> s2 \<Longrightarrow> grade_rank (from_score s1) \<le> grade_rank (from_score s2)"
  by (simp add: from_score_cases grade_rank_simps)

lemma thresholds_decreasing: "sorted_wrt (>) (map min_score HabitatGrade_members)"
  by (simp add: HabitatGrade_members_def)

text \<open>
  Claim C1. For every \<open>PropertyData\<close>, the final score of \<open>score_property\<close> is the sum of
  the four category totals and the impervious penalty, clamped to the interval from 0
  to 100; so it lies in that interval whatever the subtotals and the penalty are.
\<close>

theorem score_property_final_score_clamped:
  "final_score (score_property d) =
     max 0 (min 100 (fl_total (score_floral_resources d) + ne_total (score_nesting_habitat d)
        + co_total (score_connectivity d) + mg_total (score_management d)
        + calculate_impervious_penalty d))
   \<and> 0 \<le> final_score (score_property d) \<and> final_score (score_property d) \<le> 100"
  by (simp add: score_property_def Let_def default_breakdown_def)

theorem score_property_final_score_clamped_witness:
  "co_total (score_connectivity ((default_property 0 0) \<lparr> neighbors_in_program := - 100 \<rparr>)) = - 194
   \<and> final_score (score_property ((default_property 0 0) \<lparr> neighbors_in_program := - 100 \<rparr>)) = 0"
proof -
  have totals:
    "fl_total (score_floral_resources ((default_property 0 0) \<lparr> neighbors_in_program := - 100 \<rparr>)) = 0"
    "ne_total (score_nesting_habitat ((default_property 0 0) \<lparr> neighbors_in_program := - 100 \<rparr>)) = 0"
    "co_total (score_connectivity ((default_property 0 0) \<lparr> neighbors_in_program := - 100 \<rparr>)) = - 194"
    "mg_total (score_management ((default_property 0 0) \<lparr> neighbors_in_program := - 100 \<rparr>)) = 8"
    "calculate_impervious_penalty ((default_property 0 0) \<lparr> neighbors_in_program := - 100 \<rparr>) = - (14 / 5)"
    by (simp_all add: score_floral_resources_def score_nesting_habitat_def score_connectivity_def
          score_management_def calculate_impervious_penalty_def THRESHOLD_def MAX_PENALTY_def
          default_property_def seasons_covered_def Let_def split del: if_split)
  show ?thesis
    using score_property_final_score_clamped
            [of "(default_property 0 0) \<lparr> neighbors_in_program := - 100 \<rparr>"]
    by (simp add: totals)
qed

text \<open>
  Claim C7 fails as stated: with \<open>uses_pesticides\<close> false (its default) the pesticide
  credit is 8 also when the frequency is \<open>"often"\<close>.
\<close>

theorem pesticide_credit_often_counterexample:
  "pesticide_frequency ((default_property 0 0) \<lparr> pesticide_frequency := ''often'' \<rparr>) = ''often''
   \<and> mg_pesticide_free
       (score_management ((default_property 0 0) \<lparr> pesticide_frequency := ''often'' \<rparr>)) = 8"
  by (simp add: score_management_def default_property_def)

text \<open>
  Claim C7, amended. The pesticide credit of the management category is determined by
  \<open>uses_pesticides\<close> and \<open>pesticide_frequency\<close>: it is 8 when \<open>uses_pesticides\<close> is false,
  whatever the frequency is; when \<open>uses_pesticides\<close> is true it is 8 for \<open>"never"\<close>, 5 for
  \<open>"rarely"\<close>, 2 for \<open>"sometimes"\<close> and 0 for \<open>"often"\<close>.
\<close>

theorem pesticide_credit_by_use_and_frequency:
  "(\<not> uses_pesticides d \<longrightarrow> mg_pesticide_free (score_management d) = 8)
   \<and> (uses_pesticides d \<longrightarrow>
        (pesticide_frequency d = ''never'' \<longrightarrow> mg_pesticide_free (score_management d) = 8)
      \<and> (pesticide_frequency d = ''rarely'' \<longrightarrow> mg_pesticide_free (score_management d) = 5)
      \<and> (pesticide_frequency d = ''sometimes'' \<longrightarrow> mg_pesticide_free (score_management d) = 2)
      \<and> (pesticide_frequency d = ''often'' \<longrightarrow> mg_pesticide_free (score_management d) = 0))"
  by (simp add: score_management_def Let_def)

theorem pesticide_credit_by_use_and_frequency_witness:
  "mg_pesticide_free (score_management
       ((default_property 0 0) \<lparr> uses_pesticides := False, pesticide_frequency := ''often'' \<rparr>)) = 8
   \<and> mg_pesticide_free (score_management
       ((default_property 0 0) \<lparr> uses_pesticides := True, pesticide_frequency := ''never'' \<rparr>)) = 8
   \<and> mg_pesticide_free (score_management
       ((default_property 0 0) \<lparr> uses_pesticides := True, pesticide_frequency := ''rarely'' \<rparr>)) = 5
   \<and> mg_pesticide_free (score_management
       ((default_property 0 0) \<lparr> uses_pesticides := True, pesticide_frequency := ''sometimes'' \<rparr>)) = 2
   \<and> mg_pesticide_free (score_management
       ((default_property 0 0) \<lparr> uses_pesticides := True, pesticide_frequency := ''often'' \<rparr>)) = 0"
  using pesticide_credit_by_use_and_frequency
          [of "(default_property 0 0) \<lparr> uses_pesticides := False, pesticide_frequency := ''often'' \<rparr>"]
        pesticide_credit_by_use_and_frequency
          [of "(default_property 0 0) \<lparr> uses_pesticides := True, pesticide_frequency := ''never'' \<rparr>"]
        pesticide_credit_by_use_and_frequency
          [of "(default_property 0 0) \<lparr> uses_pesticides := True, pesticide_frequency := ''rarely'' \<rparr>"]
        pesticide_credit_by_use_and_frequency
          [of "(default_property 0 0) \<lparr> uses_pesticides := True, pesticide_frequency := ''sometimes'' \<rparr>"]
        pesticide_credit_by_use_and_frequency
          [of "(default_property 0 0) \<lparr> uses_pesticides := True, pesticide_frequency := ''often'' \<rparr>"]
  by (simp add: default_property_def)

text \<open>
  Claim C8. Grade assignment is monotone: for scores \<open>s1 \<le> s2\<close> the grade of \<open>s1\<close> is
  never of a higher tier than the grade of \<open>s2\<close>, for \<open>HabitatGrade.from_score\<close> and for
  \<open>get_grade\<close>, which returns the letter of the same grade. The lookup scans the tiers
  in the order of the enumeration, whose thresholds strictly decrease, and returns the
  first tier whose threshold is at most the score: every tier before the one returned
  has a threshold above the score, and the scan ends in the lowest tier \<open>F\<close>, which also
  takes the scores below every threshold.
\<close>

theorem grade_assignment_monotone:
  "s1 \<le> s2 \<Longrightarrow>
     grade_rank (from_score s1) \<le> grade_rank (from_score s2)
   \<and> get_grade s1 = letter (from_score s1) \<and> get_grade s2 = letter (from_score s2)
   \<and> sorted_wrt (>) (map min_score HabitatGrade_members)
   \<and> last HabitatGrade_members = F
   \<and> (\<exists>before after. HabitatGrade_members = before @ from_score s1 # after
         \<and> list_all (\<lambda>g. s1 < min_score g) before
         \<and> (min_score (from_score s1) \<le> s1 \<or> after = []))"
proof -
  assume le: "s1 \<le> s2"
  have scan: "\<exists>before after. HabitatGrade_members = before @ from_score s1 # after
         \<and> list_all (\<lambda>g. s1 < min_score g) before
         \<and> (min_score (from_score s1) \<le> s1 \<or> after = [])"
  proof (cases "find (\<lambda>g. s1 \<ge> min_score g) HabitatGrade_members")
    case None
    then have all: "list_all (\<lambda>g. s1 < min_score g) HabitatGrade_members"
      by (simp add: find_None_iff list_all_iff not_le)
    have fs: "from_score s1 = F"
      using None by (simp add: from_score_def)
    have "HabitatGrade_members = [A_PLUS, A, B, C, D] @ from_score s1 # []"
      by (simp add: fs HabitatGrade_members_def)
    moreover have "list_all (\<lambda>g. s1 < min_score g) [A_PLUS, A, B, C, D]"
      using all by (simp add: HabitatGrade_members_def)
    ultimately show ?thesis by blast
  next
    case (Some g)
    then obtain i where i: "i < length HabitatGrade_members" "min_score (HabitatGrade_members ! i) \<le> s1"
      "g = HabitatGrade_members ! i" "\<forall>j<i. \<not> min_score (HabitatGrade_members ! j) \<le> s1"
      by (auto simp: find_Some_iff)
    have fs: "from_score s1 = g"
      using Some by (simp add: from_score_def)
    have split: "HabitatGrade_members
        = take i HabitatGrade_members @ from_score s1 # drop (Suc i) HabitatGrade_members"
      using i(1,3) fs by (simp add: id_take_nth_drop)
    have before: "list_all (\<lambda>g. s1 < min_score g) (take i HabitatGrade_members)"
      using i(1,4) by (auto simp: list_all_length not_le)
    have here: "min_score (from_score s1) \<le> s1"
      using i(2,3) fs by simp
    show ?thesis
      using split before here by (intro exI conjI disjI1)
  qed
  show ?thesis
    using le scan
    by (simp add: from_score_mono get_grade_letter thresholds_decreasing HabitatGrade_members_def)
qed

theorem grade_assignment_monotone_witness:
  "(55::rat) \<le> 85 \<and> from_score 55 = D \<and> from_score 85 = A
   \<and> grade_rank (from_score 55) \<le> grade_rank (from_score 85)
   \<and> get_grade 55 = ''D'' \<and> get_grade 85 = ''A''"
  using grade_assignment_monotone [of 55 85]
  by (simp add: from_score_cases get_grade_def)

section \<open>The scoring computation and the model configuration\<close>

lemmas cfg_defs = active_model_value_def get_active_model_def subscript_def SCORING_MODELS_def
  ACTIVE_MODEL_VERSION_def tier_def get_model_def get_model_version_def

text \<open>
  Claim C6. Every scoring result records the version of the model configuration that
  produced it, and the weights, tier boundaries and point values of the computation
  are those of that configuration. The code does not do this: \<open>score_property\<close> takes
  the property data alone and reads no configuration, and \<open>ScoreBreakdown\<close> has no
  field for a version. Its results differ from what the active configuration
  prescribes: for monthly mowing the configuration gives 2 points and \<open>score_property\<close>
  gives 3, and at the final score 80 \<open>score_property\<close> gives the grade \<open>A\<close>, which the
  configuration places at 85, with \<open>A-\<close> at 80.
\<close>

theorem score_property_not_configured:
  "active_model_value [''nesting_config'', ''mowing_points'', ''monthly''] = PNum 2
   \<and> nesting_undisturbed
       (score_property ((default_property 0 0) \<lparr> mowing_frequency := ''monthly'' \<rparr>)) = 3
   \<and> active_model_value [''grade_thresholds'', ''A''] = PNum 85
   \<and> active_model_value [''grade_thresholds'', ''A-''] = PNum 80
   \<and> final_score (score_property example_garden) = 80
   \<and> grade (score_property example_garden) = ''A''"
proof -
  have cfg: "active_model_value [''nesting_config'', ''mowing_points'', ''monthly''] = PNum 2"
    "active_model_value [''grade_thresholds'', ''A''] = PNum 85"
    "active_model_value [''grade_thresholds'', ''A-''] = PNum 80"
    by (simp_all add: cfg_defs)
  have mow: "nesting_undisturbed
       (score_property ((default_property 0 0) \<lparr> mowing_frequency := ''monthly'' \<rparr>)) = 3"
    by (simp add: score_property_def default_breakdown_def score_nesting_habitat_def
          default_property_def Let_def split del: if_split)
  have totals:
    "fl_total (score_floral_resources example_garden) = 25"
    "ne_total (score_nesting_habitat example_garden) = 30"
    "co_total (score_connectivity example_garden) = 10"
    "mg_total (score_management example_garden) = 15"
    "calculate_impervious_penalty example_garden = 0"
    by (simp_all add: score_floral_resources_def score_nesting_habitat_def score_connectivity_def
          score_management_def calculate_impervious_penalty_def THRESHOLD_def MAX_PENALTY_def
          example_garden_def default_property_def seasons_covered_def Let_def
          split del: if_split)
  have final: "final_score (score_property example_garden) = 80"
    by (simp add: score_property_def default_breakdown_def Let_def totals)
  have "grade (score_property example_garden) = get_grade (final_score (score_property example_garden))"
    by (simp add: score_property_def default_breakdown_def Let_def)
  then have "grade (score_property example_garden) = ''A''"
    by (simp add: final get_grade_def)
  then show ?thesis
    using cfg mow final by simp
qed

section \<open>Properties of the cache manager\<close>

lemma min_from_mem: "min_from f b xs \<in> set (b # xs)"
  by (induction xs arbitrary: b) auto

lemma min_from_le: "\<forall>x \<in> set (b # xs). f (min_from f b xs) \<le> f x"
proof (induction xs arbitrary: b)
  case Nil
  then show ?case by simp
next
  case (Cons y ys)
  show ?case
  proof (cases "f y < f b")
    case True
    have IH: "\<forall>x \<in> set (y # ys). f (min_from f y ys) \<le> f x"
      by (rule Cons.IH)
    then have "f (min_from f y ys) \<le> f y"
      by simp
    then have "f (min_from f y ys) \<le> f b"
      using True by linarith
    then show ?thesis
      using IH True by simp
  next
    case False
    have IH: "\<forall>x \<in> set (b # ys). f (min_from f b ys) \<le> f x"
      by (rule Cons.IH)
    then have "f (min_from f b ys) \<le> f b"
      by simp
    then have "f (min_from f b ys) \<le> f y"
      using False by linarith
    then show ?thesis
      using IH False by simp
  qed
qed

lemma oldest_key_nonempty:
  assumes "items \<noteq> []"
  shows "\<exists>k e. oldest_key items = Inr k \<and> (k, e) \<in> set items
           \<and> (\<forall>item \<in> set items. timestamp e \<le> timestamp (snd item))"
proof -
  obtain x rest where items: "items = x # rest"
    using assms by (cases items) auto
  let ?m = "min_from (\<lambda>item. timestamp (snd item)) x rest"
  have "oldest_key items = Inr (fst ?m)"
    by (simp add: oldest_key_def py_min_def items)
  moreover have "(fst ?m, snd ?m) \<in> set items"
    using min_from_mem[of "\<lambda>item. timestamp (snd item)" x rest] by (simp add: items)
  moreover have "\<forall>item \<in> set items. timestamp (snd ?m) \<le> timestamp (snd item)"
    using min_from_le[of x rest "\<lambda>item. timestamp (snd item)"] by (simp add: items)
  ultimately show ?thesis by blast
qed

lemma oldest_key_empty: "oldest_key [] = Inl (ValueError ''min() arg is an empty sequence'')"
  by (simp add: oldest_key_def py_min_def)

lemma delete_one:
  fixes xs :: "('k \<times> 'v) list"
  shows "distinct (map fst xs) \<Longrightarrow> (k, e) \<in> set xs \<Longrightarrow>
     length (AList.delete k xs) + 1 = length xs \<and> set (AList.delete k xs) = set xs - {(k, e)}"
proof (induction xs)
  case Nil
  then show ?case by simp
next
  case (Cons x xs)
  obtain k' e' where x: "x = (k', e')" by (cases x)
  have d: "distinct (map fst xs)" and nk': "k' \<notin> fst ` set xs"
    using Cons.prems(1) x by simp_all
  show ?case
  proof (cases "k' = k")
    case True
    then have notin: "k \<notin> fst ` set xs" using nk' by simp
    then have same: "AList.delete k xs = xs"
      by (rule delete_id)
    have ne: "(k, e) \<notin> set xs"
      using notin by (metis fst_conv image_eqI)
    then have "e' = e"
      using Cons.prems(2) x True by simp
    then show ?thesis
      using True same x ne by simp
  next
    case False
    then have "(k, e) \<in> set xs" using Cons.prems(2) x by simp
    then have IH: "length (AList.delete k xs) + 1 = length xs"
        "set (AList.delete k xs) = set xs - {(k, e)}"
      using Cons.IH d by simp_all
    have "x \<noteq> (k, e)" using False x by simp
    then show ?thesis
      using False x IH by (simp add: insert_Diff_if)
  qed
qed

lemma map_of_delete_same: "map_of (AList.delete k xs) k = None"
  by (simp add: AList.delete_conv')

lemma map_of_update_same: "map_of (AList.update k v xs) k = Some v"
  by (simp add: AList.update_conv')

lemma CacheManager_set_stored:
  assumes "CacheManager_set t source location d c = Inr c'"
  shows "map_of (cache c') (make_key source (grid_hash location)) = Some \<lparr> data = d, timestamp = t \<rparr>"
    and "ttl_hours c' = ttl_hours c"
  using assms
  by (auto simp: CacheManager_set_def store_entry_def map_of_update_same
           split: if_splits sum.splits)

text \<open>
  Claim C4 fails as stated on a cache of capacity zero: the empty store holds at least
  \<open>max_entries\<close> entries, there is no entry to remove, and \<open>set\<close> raises the
  \<open>ValueError\<close> of \<open>min\<close> on an empty sequence; nothing is evicted or inserted.
\<close>

theorem cache_set_empty_at_capacity_counterexample:
  "int (length (cache (CacheManager_init 24 0))) \<ge> max_entries (CacheManager_init 24 0)
   \<and> CacheManager_set 5 ''weather''
        \<lparr> lat = 0, lng = 0, name = [], address = [], grid_hash = ''40.667_-111.897'' \<rparr>
        (PDict []) (CacheManager_init 24 0)
       = Inl (ValueError ''min() arg is an empty sequence'')"
  by (simp add: CacheManager_set_def CacheManager_init_def oldest_key_def py_min_def)

text \<open>
  Claim C4, amended. Whenever \<open>set\<close> is called while the store is not empty and holds at
  least \<open>max_entries\<close> entries, exactly one entry is removed, an entry whose write
  timestamp is the oldest of all entries, and the eviction counter increases by exactly
  1, before the new entry is inserted; this does not depend on whether the key written
  is already present, so an overwrite at capacity still evicts the oldest entry. A \<open>set\<close>
  below capacity evicts nothing. (The keys of the dictionary are distinct.)
\<close>

theorem cache_set_at_capacity_evicts_oldest:
  "(distinct (map fst (cache c)) \<and> cache c \<noteq> [] \<and> int (length (cache c)) \<ge> max_entries c \<longrightarrow>
      (\<exists>k e. (k, e) \<in> set (cache c)
         \<and> (\<forall>item \<in> set (cache c). timestamp e \<le> timestamp (snd item))
         \<and> length (AList.delete k (cache c)) + 1 = length (cache c)
         \<and> set (AList.delete k (cache c)) = set (cache c) - {(k, e)}
         \<and> CacheManager_set now source location d c
             = Inr (c \<lparr> cache := AList.update (make_key source (grid_hash location))
                                   \<lparr> data = d, timestamp = now \<rparr> (AList.delete k (cache c)),
                         stats := (stats c) \<lparr> evictions := evictions (stats c) + 1 \<rparr> \<rparr>)))
   \<and> (int (length (cache c)) < max_entries c \<longrightarrow>
        CacheManager_set now source location d c
          = Inr (c \<lparr> cache := AList.update (make_key source (grid_hash location))
                                \<lparr> data = d, timestamp = now \<rparr> (cache c) \<rparr>))"
proof (intro conjI impI)
  assume a: "distinct (map fst (cache c)) \<and> cache c \<noteq> [] \<and> int (length (cache c)) \<ge> max_entries c"
  then obtain k e where ke: "oldest_key (cache c) = Inr k" "(k, e) \<in> set (cache c)"
      "\<forall>item \<in> set (cache c). timestamp e \<le> timestamp (snd item)"
    using oldest_key_nonempty[of "cache c"] by blast
  have del: "length (AList.delete k (cache c)) + 1 = length (cache c)"
      "set (AList.delete k (cache c)) = set (cache c) - {(k, e)}"
    using delete_one[of "cache c" k e] a ke(2) by simp_all
  have "CacheManager_set now source location d c
             = Inr (c \<lparr> cache := AList.update (make_key source (grid_hash location))
                                   \<lparr> data = d, timestamp = now \<rparr> (AList.delete k (cache c)),
                         stats := (stats c) \<lparr> evictions := evictions (stats c) + 1 \<rparr> \<rparr>)"
    using a ke(1) by (simp add: CacheManager_set_def store_entry_def)
  then show "\<exists>k e. (k, e) \<in> set (cache c)
         \<and> (\<forall>item \<in> set (cache c). timestamp e \<le> timestamp (snd item))
         \<and> length (AList.delete k (cache c)) + 1 = length (cache c)
         \<and> set (AList.delete k (cache c)) = set (cache c) - {(k, e)}
         \<and> CacheManager_set now source location d c
             = Inr (c \<lparr> cache := AList.update (make_key source (grid_hash location))
                                   \<lparr> data = d, timestamp = now \<rparr> (AList.delete k (cache c)),
                         stats := (stats c) \<lparr> evictions := evictions (stats c) + 1 \<rparr> \<rparr>)"
    using ke(2,3) del by blast
next
  assume "int (length (cache c)) < max_entries c"
  then show "CacheManager_set now source location d c
          = Inr (c \<lparr> cache := AList.update (make_key source (grid_hash location))
                                \<lparr> data = d, timestamp = now \<rparr> (cache c) \<rparr>)"
    by (simp add: CacheManager_set_def store_entry_def)
qed

theorem cache_set_at_capacity_evicts_oldest_witness:
  "distinct (map fst (cache example_cache)) \<and> cache example_cache \<noteq> []
   \<and> int (length (cache example_cache)) \<ge> max_entries example_cache
   \<and> CacheManager_set 9 ''b'' example_location (PStr ''z'') example_cache
     = Inr (example_cache
              \<lparr> cache := [(''b:h'', \<lparr> data = PStr ''z'', timestamp = 9 \<rparr>)],
                stats := \<lparr> hits = 0, misses = 0, evictions = 1 \<rparr> \<rparr>)
   \<and> int (length (cache (example_cache \<lparr> max_entries := 3 \<rparr>)))
       < max_entries (example_cache \<lparr> max_entries := 3 \<rparr>)
   \<and> CacheManager_set 9 ''b'' example_location (PStr ''z'') (example_cache \<lparr> max_entries := 3 \<rparr>)
     = Inr (example_cache
              \<lparr> max_entries := 3,
                cache := [(''a:h'', \<lparr> data = PStr ''x'', timestamp = 1 \<rparr>),
                          (''b:h'', \<lparr> data = PStr ''z'', timestamp = 9 \<rparr>)] \<rparr>)"
  using cache_set_at_capacity_evicts_oldest
          [of example_cache 9 "''b''" example_location "PStr ''z''"]
        cache_set_at_capacity_evicts_oldest
          [of "example_cache \<lparr> max_entries := 3 \<rparr>" 9 "''b''" example_location "PStr ''z''"]
  by (simp add: example_cache_def example_location_def CacheManager_set_def store_entry_def
        oldest_key_def py_min_def make_key_def)

text \<open>
  Claim C5. The entry for a source and a fingerprint is the entry under their key
  \<open>source:fingerprint\<close>. \<open>get\<close> returns the stored payload and counts a hit exactly
  when an entry exists under that key whose age is below the TTL; an
  entry whose age is at least the TTL is deleted and the lookup is a miss returning
  \<open>None\<close>; with no entry the lookup is a miss too. An entry set at time \<open>t\<close> is returned
  unchanged by a read before \<open>t\<close> plus the TTL.
\<close>

theorem cache_get_returns_fresh_entries_only:
  "(\<forall>entry. map_of (cache c) (make_key source (grid_hash location)) = Some entry
        \<and> now - timestamp entry < timedelta_hours (ttl_hours c) \<longrightarrow>
      CacheManager_get now source location c
        = (data entry, c \<lparr> stats := (stats c) \<lparr> hits := hits (stats c) + 1 \<rparr> \<rparr>))
   \<and> (\<forall>entry. map_of (cache c) (make_key source (grid_hash location)) = Some entry
        \<and> now - timestamp entry \<ge> timedelta_hours (ttl_hours c) \<longrightarrow>
      CacheManager_get now source location c
        = (PNone, c \<lparr> cache := AList.delete (make_key source (grid_hash location)) (cache c),
                      stats := (stats c) \<lparr> misses := misses (stats c) + 1 \<rparr> \<rparr>)
      \<and> map_of (cache (snd (CacheManager_get now source location c)))
            (make_key source (grid_hash location)) = None)
   \<and> (map_of (cache c) (make_key source (grid_hash location)) = None \<longrightarrow>
      CacheManager_get now source location c
        = (PNone, c \<lparr> stats := (stats c) \<lparr> misses := misses (stats c) + 1 \<rparr> \<rparr>))
   \<and> (hits (stats (snd (CacheManager_get now source location c))) = hits (stats c) + 1
        \<longleftrightarrow> (\<exists>entry. map_of (cache c) (make_key source (grid_hash location)) = Some entry
               \<and> now - timestamp entry < timedelta_hours (ttl_hours c)))
   \<and> (misses (stats (snd (CacheManager_get now source location c))) = misses (stats c) + 1
        \<longleftrightarrow> \<not> (\<exists>entry. map_of (cache c) (make_key source (grid_hash location)) = Some entry
               \<and> now - timestamp entry < timedelta_hours (ttl_hours c)))
   \<and> (\<forall>c'. CacheManager_set t source location d c = Inr c'
        \<and> now - t < timedelta_hours (ttl_hours c) \<longrightarrow>
      CacheManager_get now source location c'
        = (d, c' \<lparr> stats := (stats c') \<lparr> hits := hits (stats c') + 1 \<rparr> \<rparr>))"
proof (intro conjI allI impI)
  fix entry
  assume "map_of (cache c) (make_key source (grid_hash location)) = Some entry
        \<and> now - timestamp entry < timedelta_hours (ttl_hours c)"
  then show "CacheManager_get now source location c
        = (data entry, c \<lparr> stats := (stats c) \<lparr> hits := hits (stats c) + 1 \<rparr> \<rparr>)"
    by (simp add: CacheManager_get_def)
next
  fix entry
  assume a: "map_of (cache c) (make_key source (grid_hash location)) = Some entry
        \<and> now - timestamp entry \<ge> timedelta_hours (ttl_hours c)"
  then show g: "CacheManager_get now source location c
        = (PNone, c \<lparr> cache := AList.delete (make_key source (grid_hash location)) (cache c),
                      stats := (stats c) \<lparr> misses := misses (stats c) + 1 \<rparr> \<rparr>)"
    by (simp add: CacheManager_get_def)
  show "map_of (cache (snd (CacheManager_get now source location c)))
            (make_key source (grid_hash location)) = None"
    by (simp add: g map_of_delete_same)
next
  assume "map_of (cache c) (make_key source (grid_hash location)) = None"
  then show "CacheManager_get now source location c
        = (PNone, c \<lparr> stats := (stats c) \<lparr> misses := misses (stats c) + 1 \<rparr> \<rparr>)"
    by (simp add: CacheManager_get_def)
next
  show "hits (stats (snd (CacheManager_get now source location c))) = hits (stats c) + 1
        \<longleftrightarrow> (\<exists>entry. map_of (cache c) (make_key source (grid_hash location)) = Some entry
               \<and> now - timestamp entry < timedelta_hours (ttl_hours c))"
    by (cases "map_of (cache c) (make_key source (grid_hash location))")
       (simp_all add: CacheManager_get_def Let_def)
next
  show "misses (stats (snd (CacheManager_get now source location c))) = misses (stats c) + 1
        \<longleftrightarrow> \<not> (\<exists>entry. map_of (cache c) (make_key source (grid_hash location)) = Some entry
               \<and> now - timestamp entry < timedelta_hours (ttl_hours c))"
    by (cases "map_of (cache c) (make_key source (grid_hash location))")
       (simp_all add: CacheManager_get_def Let_def)
next
  fix c'
  assume a: "CacheManager_set t source location d c = Inr c'
        \<and> now - t < timedelta_hours (ttl_hours c)"
  have "map_of (cache c') (make_key source (grid_hash location)) = Some \<lparr> data = d, timestamp = t \<rparr>"
    and "ttl_hours c' = ttl_hours c"
    using a CacheManager_set_stored[of t source location d c c'] by simp_all
  then show "CacheManager_get now source location c'
        = (d, c' \<lparr> stats := (stats c') \<lparr> hits := hits (stats c') + 1 \<rparr> \<rparr>)"
    using a by (simp add: CacheManager_get_def)
qed

theorem cache_get_returns_fresh_entries_only_witness:
  "map_of (cache example_cache) (make_key ''a'' (grid_hash example_location))
     = Some \<lparr> data = PStr ''x'', timestamp = 1 \<rparr>
   \<and> CacheManager_get 9 ''a'' example_location example_cache
       = (PStr ''x'', example_cache \<lparr> stats := \<lparr> hits = 1, misses = 0, evictions = 0 \<rparr> \<rparr>)
   \<and> CacheManager_get (24 * 3600000000 + 1) ''a'' example_location example_cache
       = (PNone, example_cache
            \<lparr> cache := [(''b:h'', \<lparr> data = PStr ''y'', timestamp = 2 \<rparr>)],
              stats := \<lparr> hits = 0, misses = 1, evictions = 0 \<rparr> \<rparr>)
   \<and> CacheManager_get 9 ''c'' example_location example_cache
       = (PNone, example_cache \<lparr> stats := \<lparr> hits = 0, misses = 1, evictions = 0 \<rparr> \<rparr>)
   \<and> CacheManager_set 5 ''c'' example_location (PStr ''z'') example_cache
       = Inr (example_cache
                \<lparr> cache := [(''b:h'', \<lparr> data = PStr ''y'', timestamp = 2 \<rparr>),
                            (''c:h'', \<lparr> data = PStr ''z'', timestamp = 5 \<rparr>)],
                  stats := \<lparr> hits = 0, misses = 0, evictions = 1 \<rparr> \<rparr>)
   \<and> fst (CacheManager_get (24 * 3600000000 + 4) ''c'' example_location
          (example_cache
                \<lparr> cache := [(''b:h'', \<lparr> data = PStr ''y'', timestamp = 2 \<rparr>),
                            (''c:h'', \<lparr> data = PStr ''z'', timestamp = 5 \<rparr>)],
                  stats := \<lparr> hits = 0, misses = 0, evictions = 1 \<rparr> \<rparr>)) = PStr ''z''"
  using cache_get_returns_fresh_entries_only [of example_cache "''a''" example_location 9 0 PNone]
        cache_get_returns_fresh_entries_only
          [of example_cache "''a''" example_location "24 * 3600000000 + 1" 0 PNone]
        cache_get_returns_fresh_entries_only [of example_cache "''c''" example_location 9 0 PNone]
        cache_get_returns_fresh_entries_only
          [of example_cache "''c''" example_location "24 * 3600000000 + 4" 5 "PStr ''z''"]
  by (simp add: example_cache_def example_location_def make_key_def timedelta_hours_def
        CacheManager_set_def store_entry_def oldest_key_def py_min_def)

text \<open>
  Claim C10. A cache hit does not change the store: when \<open>get\<close> finds a fresh entry,
  the dictionary is as before (only the hit counter changes), the entry keeps its
  payload and timestamp, the oldest entry is the same, and a later read gives what it
  would have given without the hit.
\<close>

theorem cache_hit_does_not_mutate_store:
  "map_of (cache c) (make_key source (grid_hash location)) = Some entry \<Longrightarrow>
   now - timestamp entry < timedelta_hours (ttl_hours c) \<Longrightarrow>
     snd (CacheManager_get now source location c)
       = c \<lparr> stats := (stats c) \<lparr> hits := hits (stats c) + 1 \<rparr> \<rparr>
   \<and> cache (snd (CacheManager_get now source location c)) = cache c
   \<and> map_of (cache (snd (CacheManager_get now source location c)))
        (make_key source (grid_hash location)) = Some entry
   \<and> oldest_key (cache (snd (CacheManager_get now source location c))) = oldest_key (cache c)
   \<and> fst (CacheManager_get later source location (snd (CacheManager_get now source location c)))
       = fst (CacheManager_get later source location c)"
  by (simp add: CacheManager_get_def)

theorem cache_hit_does_not_mutate_store_witness:
  "map_of (cache example_cache) (make_key ''b'' (grid_hash example_location))
     = Some \<lparr> data = PStr ''y'', timestamp = 2 \<rparr>
   \<and> 9 - timestamp \<lparr> data = PStr ''y'', timestamp = 2 \<rparr> < timedelta_hours (ttl_hours example_cache)
   \<and> cache (snd (CacheManager_get 9 ''b'' example_location example_cache)) = cache example_cache
   \<and> oldest_key (cache (snd (CacheManager_get 9 ''b'' example_location example_cache))) = Inr ''a:h''"
  using cache_hit_does_not_mutate_store
          [of example_cache "''b''" example_location "\<lparr> data = PStr ''y'', timestamp = 2 \<rparr>" 9]
  by (simp add: example_cache_def example_location_def make_key_def timedelta_hours_def
        oldest_key_def py_min_def)

section \<open>Properties of the engine\<close>

lemmas ex_defs = fetch_data_def requested_sources_def fetch_source_def CacheManager_get_def
  example_engine_def stale_engine_def register_source_def failing_source_def working_source_def
  PollinatorEngine_init_def CacheManager_init_def make_key_def timedelta_hours_def
  CacheManager_set_def store_entry_def oldest_key_def py_min_def error_payload_def example_location_def

text \<open>
  Claim C3. When the algorithm name is not in the registry, \<open>score\<close> raises the
  \<open>ValueError\<close> for an unknown algorithm; no result is produced, no data is fetched, and
  the engine (its cache contents and its hit, miss and eviction counters) and the world
  are as they were before the call.
\<close>

theorem score_unknown_algorithm:
  "algorithm \<notin> set (list_algorithms e) \<Longrightarrow>
     score location algorithm e w
       = (Inl (ValueError (''Unknown algorithm: '' @ algorithm)), e, w)"
  by (simp add: score_def list_algorithms_def map_of_eq_None_iff[THEN iffD2])

theorem score_unknown_algorithm_witness:
  "''municipal_v1'' \<notin> set (list_algorithms scoring_engine)
   \<and> list_algorithms scoring_engine = [''homeowner_v1'']
   \<and> list_sources scoring_engine = [''bad'', ''ok'']
   \<and> cache (engine_cache scoring_engine) = [(''bad:h'', \<lparr> data = PStr ''old'', timestamp = 0 \<rparr>)]
   \<and> score example_location ''municipal_v1'' scoring_engine
         \<lparr> utcnow = 25 * 3600000000, outside = () \<rparr>
       = (Inl (ValueError ''Unknown algorithm: municipal_v1''), scoring_engine,
          \<lparr> utcnow = 25 * 3600000000, outside = () \<rparr>)
   \<and> cache (engine_cache (fst (snd (fetch_data example_location None scoring_engine
         \<lparr> utcnow = 25 * 3600000000, outside = () \<rparr>))))
       = [(''ok:h'', \<lparr> data = PDict [(''v'', PNum 1)], timestamp = 25 * 3600000000 + 20 \<rparr>)]
   \<and> snd (snd (fetch_data example_location None scoring_engine
         \<lparr> utcnow = 25 * 3600000000, outside = () \<rparr>))
       = \<lparr> utcnow = 25 * 3600000000 + 20, outside = () \<rparr>
   \<and> fst (score example_location ''homeowner_v1'' scoring_engine
         \<lparr> utcnow = 25 * 3600000000, outside = () \<rparr>) = Inr ()"
proof -
  let ?v = "\<lparr> utcnow = 25 * 3600000000, outside = () \<rparr> :: unit world"
  have names: "list_algorithms scoring_engine = [''homeowner_v1'']"
    "list_sources scoring_engine = [''bad'', ''ok'']"
    "cache (engine_cache scoring_engine) = [(''bad:h'', \<lparr> data = PStr ''old'', timestamp = 0 \<rparr>)]"
    by (simp_all add: ex_defs list_algorithms_def list_sources_def scoring_engine_def
          register_algorithm_def example_algorithm_def)
  have unknown: "''municipal_v1'' \<notin> set (list_algorithms scoring_engine)"
    by (simp add: names)
  have fetched: "cache (engine_cache (fst (snd (fetch_data example_location None scoring_engine ?v))))
       = [(''ok:h'', \<lparr> data = PDict [(''v'', PNum 1)], timestamp = 25 * 3600000000 + 20 \<rparr>)]"
    "snd (snd (fetch_data example_location None scoring_engine ?v))
       = \<lparr> utcnow = 25 * 3600000000 + 20, outside = () \<rparr>"
    by (simp_all add: ex_defs scoring_engine_def register_algorithm_def example_algorithm_def)
  have known: "fst (score example_location ''homeowner_v1'' scoring_engine ?v) = Inr ()"
    by (simp add: score_def scoring_engine_def register_algorithm_def example_algorithm_def
          map_of_update_same split: prod.splits)
  show ?thesis
    using score_unknown_algorithm [OF unknown, of example_location ?v] names unknown fetched known
    by simp
qed

subsection \<open>The loop of \<open>fetch_data\<close>\<close>

lemma make_key_inj: "make_key n h = make_key k h \<longleftrightarrow> n = k"
  by (simp add: make_key_def)

lemma fetch_loop_append:
  "fetch_loop srcs l (xs @ ys) st = fetch_loop srcs l ys (fetch_loop srcs l xs st)"
  by (induction xs arbitrary: st) simp_all

lemma fetch_source_unregistered:
  "map_of srcs n = None \<Longrightarrow> fetch_source srcs l n st = st"
  by (cases st) (simp add: fetch_source_def)

lemma fetch_source_failed:
  assumes "map_of srcs n = Some source"
      and "fst (CacheManager_get (utcnow w) n l c) = PNone"
      and "fetch source l w = (Inl ex, w')"
  shows "fetch_source srcs l n (b, c, w)
           = (b(n \<mapsto> Val (error_payload ex)), snd (CacheManager_get (utcnow w) n l c), w')"
proof -
  obtain c1 where g: "CacheManager_get (utcnow w) n l c = (PNone, c1)"
    using assms(2) by (cases "CacheManager_get (utcnow w) n l c") simp
  show ?thesis
    using assms(1,3) g by (simp add: fetch_source_def)
qed

lemma fetch_source_frame:
  "k \<noteq> n \<Longrightarrow> fst (fetch_source srcs l n (b, c, w)) k = b k"
  by (simp add: fetch_source_def split: option.splits prod.splits sum.splits)

lemma fetch_source_entry:
  "map_of srcs n = Some source \<Longrightarrow> \<exists>v. fst (fetch_source srcs l n (b, c, w)) n = Some (Val v)"
  by (simp add: fetch_source_def split: option.splits prod.splits sum.splits)

lemma fetch_loop_frame:
  "k \<notin> set ns \<Longrightarrow> fst (fetch_loop srcs l ns (b, c, w)) k = b k"
proof (induction ns arbitrary: b c w)
  case Nil
  then show ?case by simp
next
  case (Cons n ns)
  obtain b' c' w' where st: "fetch_source srcs l n (b, c, w) = (b', c', w')"
    by (cases "fetch_source srcs l n (b, c, w)")
  have "b' k = b k"
    using fetch_source_frame[of k n srcs l b c w] Cons.prems st by simp
  then show ?case
    using Cons.IH[of b' c' w'] Cons.prems st by simp
qed

lemma fetch_source_keeps_entry:
  assumes "\<exists>v. b k = Some (Val v)"
  shows "\<exists>v. fst (fetch_source srcs l n (b, c, w)) k = Some (Val v)"
proof (cases "k = n")
  case False
  then show ?thesis using assms fetch_source_frame[of k n srcs l b c w] by simp
next
  case True
  show ?thesis
  proof (cases "map_of srcs n")
    case None
    then show ?thesis using assms True fetch_source_unregistered[of srcs n l "(b, c, w)"] by simp
  next
    case (Some source)
    then show ?thesis using True fetch_source_entry[of srcs n source l b c w] by simp
  qed
qed

lemma fetch_loop_entry:
  "(\<exists>v. b k = Some (Val v)) \<or> (k \<in> set ns \<and> map_of srcs k \<noteq> None) \<Longrightarrow>
     \<exists>v. fst (fetch_loop srcs l ns (b, c, w)) k = Some (Val v)"
proof (induction ns arbitrary: b c w)
  case Nil
  then show ?case by simp
next
  case (Cons n ns)
  obtain b' c' w' where st: "fetch_source srcs l n (b, c, w) = (b', c', w')"
    by (cases "fetch_source srcs l n (b, c, w)")
  have "(\<exists>v. b' k = Some (Val v)) \<or> (k \<in> set ns \<and> map_of srcs k \<noteq> None)"
  proof (cases "\<exists>v. b k = Some (Val v)")
    case True
    then show ?thesis using fetch_source_keeps_entry[of b k srcs l n c w] st by simp
  next
    case False
    then have k: "k \<in> set (n # ns)" "map_of srcs k \<noteq> None" using Cons.prems by auto
    show ?thesis
    proof (cases "k = n")
      case True
      then obtain source where "map_of srcs n = Some source" using k(2) by auto
      then show ?thesis using fetch_source_entry[of srcs n source l b c w] st True by simp
    next
      case False
      then show ?thesis using k by simp
    qed
  qed
  then show ?case
    using Cons.IH[of b' c' w'] st by simp
qed

lemma get_other_key:
  "k \<noteq> n \<Longrightarrow>
     map_of (cache (snd (CacheManager_get t k l c))) (make_key n (grid_hash l))
       = map_of (cache c) (make_key n (grid_hash l))"
  by (simp add: CacheManager_get_def Let_def AList.delete_conv make_key_inj split: option.splits)

lemma set_delete_subset: "set (AList.delete k xs) \<subseteq> set xs"
  by (auto simp: AList.delete_eq)

lemma get_none_leaves:
  assumes "fst (CacheManager_get t n l c) = PNone"
  shows "set (cache (snd (CacheManager_get t n l c))) \<subseteq> set (cache c)"
    and "evictions (stats (snd (CacheManager_get t n l c))) = evictions (stats c)"
    and "map_of (cache c) (make_key n (grid_hash l)) = None \<Longrightarrow>
           cache (snd (CacheManager_get t n l c)) = cache c"
    and "map_of (cache (snd (CacheManager_get t n l c))) (make_key n (grid_hash l)) = Some en \<Longrightarrow>
           map_of (cache c) (make_key n (grid_hash l)) = Some en \<and> data en = PNone"
proof -
  show "set (cache (snd (CacheManager_get t n l c))) \<subseteq> set (cache c)"
    by (simp add: CacheManager_get_def Let_def set_delete_subset split: option.splits)
  show "evictions (stats (snd (CacheManager_get t n l c))) = evictions (stats c)"
    by (simp add: CacheManager_get_def Let_def split: option.splits)
  show "map_of (cache c) (make_key n (grid_hash l)) = None \<Longrightarrow>
           cache (snd (CacheManager_get t n l c)) = cache c"
    by (simp add: CacheManager_get_def)
  show "map_of (cache (snd (CacheManager_get t n l c))) (make_key n (grid_hash l)) = Some en \<Longrightarrow>
           map_of (cache c) (make_key n (grid_hash l)) = Some en \<and> data en = PNone"
    using assms
    by (simp add: CacheManager_get_def Let_def AList.delete_conv split: option.splits if_splits)
qed

lemma set_other_key:
  assumes "k \<noteq> n" and "CacheManager_set t k l r c = Inr c'"
  shows "map_of (cache c') (make_key n (grid_hash l)) = map_of (cache c) (make_key n (grid_hash l))
         \<or> map_of (cache c') (make_key n (grid_hash l)) = None"
  using assms
  by (auto simp: CacheManager_set_def store_entry_def AList.update_conv AList.delete_conv
        make_key_inj split: if_splits sum.splits)

lemma fetch_source_other_key:
  assumes "k \<noteq> n" and "fetch_source srcs l k (b, c, w) = (b', c', w')"
  shows "map_of (cache c') (make_key n (grid_hash l)) = map_of (cache c) (make_key n (grid_hash l))
         \<or> map_of (cache c') (make_key n (grid_hash l)) = None"
proof (cases "map_of srcs k")
  case None
  then show ?thesis using assms(2) by (simp add: fetch_source_def)
next
  case (Some source)
  obtain cached c1 where g: "CacheManager_get (utcnow w) k l c = (cached, c1)"
    by (cases "CacheManager_get (utcnow w) k l c")
  have c1: "map_of (cache c1) (make_key n (grid_hash l)) = map_of (cache c) (make_key n (grid_hash l))"
    using get_other_key[OF assms(1), of "utcnow w" l c] g by simp
  show ?thesis
  proof (cases "cached \<noteq> PNone")
    case True
    then show ?thesis using assms(2) Some g c1 by (simp add: fetch_source_def)
  next
    case False
    obtain res w2 where f: "fetch source l w = (res, w2)"
      by (cases "fetch source l w")
    show ?thesis
    proof (cases res)
      case (Inl ex)
      then show ?thesis using assms(2) Some g c1 False f by (simp add: fetch_source_def)
    next
      case (Inr result)
      show ?thesis
      proof (cases "CacheManager_set (utcnow w2) k l result c1")
        case (Inl ex)
        then show ?thesis using assms(2) Some g c1 False f Inr by (simp add: fetch_source_def)
      next
        case (Inr c2)
        then have "c' = c2"
          using assms(2) Some g False f \<open>res = Inr result\<close> by (simp add: fetch_source_def)
        then show ?thesis
          using set_other_key[OF assms(1) Inr] c1 by simp
      qed
    qed
  qed
qed

lemma fetch_loop_other_key:
  "n \<notin> set ns \<Longrightarrow> fetch_loop srcs l ns (b, c, w) = (b', c', w') \<Longrightarrow>
     map_of (cache c') (make_key n (grid_hash l)) = map_of (cache c) (make_key n (grid_hash l))
     \<or> map_of (cache c') (make_key n (grid_hash l)) = None"
proof (induction ns arbitrary: b c w)
  case Nil
  then show ?case by simp
next
  case (Cons k ns)
  obtain b1 c1 w1 where st: "fetch_source srcs l k (b, c, w) = (b1, c1, w1)"
    by (cases "fetch_source srcs l k (b, c, w)")
  have kn: "k \<noteq> n" and rest: "n \<notin> set ns"
    using Cons.prems(1) by auto
  have step: "map_of (cache c1) (make_key n (grid_hash l)) = map_of (cache c) (make_key n (grid_hash l))
         \<or> map_of (cache c1) (make_key n (grid_hash l)) = None"
    using fetch_source_other_key[OF kn st] .
  have loop: "map_of (cache c') (make_key n (grid_hash l)) = map_of (cache c1) (make_key n (grid_hash l))
     \<or> map_of (cache c') (make_key n (grid_hash l)) = None"
    using Cons.IH[OF rest, of b1 c1 w1] Cons.prems(2) st by simp
  show ?case
    using step loop by auto
qed

lemma get_of_none_payload:
  "(\<And>en. map_of (cache c) (make_key n (grid_hash l)) = Some en \<Longrightarrow> data en = PNone) \<Longrightarrow>
     fst (CacheManager_get t n l c) = PNone"
  by (simp add: CacheManager_get_def Let_def split: option.splits)

text \<open>
  The constructor of the engine builds its cache manager with the default capacity of
  1000 entries, and no operation of the engine changes the capacity. A cache manager of
  positive capacity stores every entry it is given: \<open>set\<close> raises only on the empty
  store of a cache of capacity zero or less.
\<close>

lemma set_succeeds:
  assumes "0 < max_entries c"
  shows "\<exists>c'. CacheManager_set t s l d c = Inr c'"
proof (cases "int (length (cache c)) \<ge> max_entries c")
  case True
  then have "cache c \<noteq> []" using assms by auto
  then obtain k where "oldest_key (cache c) = Inr k"
    using oldest_key_nonempty[of "cache c"] by blast
  then show ?thesis using True by (simp add: CacheManager_set_def)
next
  case False
  then show ?thesis by (simp add: CacheManager_set_def)
qed

lemma get_capacity: "max_entries (snd (CacheManager_get t s l c)) = max_entries c"
  by (simp add: CacheManager_get_def Let_def split: option.splits)

lemma set_capacity: "CacheManager_set t s l d c = Inr c' \<Longrightarrow> max_entries c' = max_entries c"
  by (auto simp: CacheManager_set_def store_entry_def split: if_splits sum.splits)

lemma fetch_source_capacity:
  "fetch_source srcs l k (b, c, w) = (b', c', w') \<Longrightarrow> max_entries c' = max_entries c"
proof (cases "map_of srcs k")
  case None
  assume "fetch_source srcs l k (b, c, w) = (b', c', w')"
  then show ?thesis using None by (simp add: fetch_source_def)
next
  case (Some source)
  assume st: "fetch_source srcs l k (b, c, w) = (b', c', w')"
  obtain cached c1 where g: "CacheManager_get (utcnow w) k l c = (cached, c1)"
    by (cases "CacheManager_get (utcnow w) k l c")
  have c1: "max_entries c1 = max_entries c"
    using get_capacity[of "utcnow w" k l c] g by simp
  show ?thesis
  proof (cases "cached \<noteq> PNone")
    case True
    then show ?thesis using st Some g c1 by (simp add: fetch_source_def)
  next
    case False
    obtain res w2 where f: "fetch source l w = (res, w2)"
      by (cases "fetch source l w")
    show ?thesis
    proof (cases res)
      case (Inl ex)
      then show ?thesis using st Some g c1 False f by (simp add: fetch_source_def)
    next
      case (Inr result)
      show ?thesis
      proof (cases "CacheManager_set (utcnow w2) k l result c1")
        case (Inl ex)
        then show ?thesis using st Some g c1 False f Inr by (simp add: fetch_source_def)
      next
        case (Inr c2)
        then have "c' = c2"
          using st Some g False f \<open>res = Inr result\<close> by (simp add: fetch_source_def)
        then show ?thesis
          using set_capacity[OF Inr] c1 by simp
      qed
    qed
  qed
qed

lemma fetch_loop_capacity:
  "fetch_loop srcs l ns (b, c, w) = (b', c', w') \<Longrightarrow> max_entries c' = max_entries c"
proof (induction ns arbitrary: b c w)
  case Nil
  then show ?case by simp
next
  case (Cons k ns)
  obtain b1 c1 w1 where st: "fetch_source srcs l k (b, c, w) = (b1, c1, w1)"
    by (cases "fetch_source srcs l k (b, c, w)")
  have "max_entries c1 = max_entries c"
    using fetch_source_capacity[OF st] .
  then show ?case
    using Cons.IH[of b1 c1 w1] Cons.prems st by simp
qed

lemma fetch_source_hit:
  assumes "map_of srcs k = Some source"
      and "fst (CacheManager_get (utcnow w) k l c) \<noteq> PNone"
  shows "fetch_source srcs l k (b, c, w)
           = (b(k \<mapsto> Val (fst (CacheManager_get (utcnow w) k l c))),
              snd (CacheManager_get (utcnow w) k l c), w)"
proof -
  obtain cached c1 where g: "CacheManager_get (utcnow w) k l c = (cached, c1)"
    by (cases "CacheManager_get (utcnow w) k l c")
  show ?thesis
    using assms g by (simp add: fetch_source_def)
qed

lemma fetch_source_fetched:
  assumes "map_of srcs k = Some source"
      and "fst (CacheManager_get (utcnow w) k l c) = PNone"
      and "fetch source l w = (Inr result, w')"
      and "0 < max_entries c"
  shows "fst (fetch_source srcs l k (b, c, w)) k = Some (Val result)"
proof -
  obtain c1 where g: "CacheManager_get (utcnow w) k l c = (PNone, c1)"
    using assms(2) by (cases "CacheManager_get (utcnow w) k l c") simp
  have "max_entries c1 = max_entries c"
    using get_capacity[of "utcnow w" k l c] g by simp
  then obtain c2 where "CacheManager_set (utcnow w') k l result c1 = Inr c2"
    using set_succeeds[of c1 "utcnow w'" k l result] assms(4) by auto
  then show ?thesis
    using assms(1,3) g by (simp add: fetch_source_def)
qed

lemma fetch_loop_last_turn:
  assumes "ns = mid @ k # rest" and "k \<notin> set rest"
      and "fetch_loop srcs l mid st = (bk, ck, wk)"
  shows "fst (fetch_loop srcs l ns st) k = fst (fetch_source srcs l k (bk, ck, wk)) k"
proof -
  obtain b2 c2 w2 where t: "fetch_source srcs l k (bk, ck, wk) = (b2, c2, w2)"
    by (cases "fetch_source srcs l k (bk, ck, wk)")
  have "fetch_loop srcs l ns st = fetch_loop srcs l rest (b2, c2, w2)"
    using assms(1,3) t by (simp add: fetch_loop_append)
  then show ?thesis
    using fetch_loop_frame[OF assms(2), of srcs l b2 c2 w2] t by simp
qed

lemma fst_fetch_data:
  "fst (fetch_data location srcs e w)
     = fst (fetch_loop (sources e) location (requested_sources srcs e)
              ([''_location'' \<mapsto> Loc location], engine_cache e, w))"
  by (simp add: fetch_data_def split: prod.splits)

lemma fetch_data_last_turn:
  assumes split: "requested_sources srcs e = mid @ k # rest"
      and last: "k \<notin> set rest"
      and pre: "fetch_loop (sources e) location mid
                  ([''_location'' \<mapsto> Loc location], engine_cache e, w) = (bk, ck, wk)"
      and reg: "map_of (sources e) k = Some source_k"
  shows "(fst (CacheManager_get (utcnow wk) k location ck) \<noteq> PNone \<longrightarrow>
            fst (fetch_data location srcs e w) k
              = Some (Val (fst (CacheManager_get (utcnow wk) k location ck))))
       \<and> (fst (CacheManager_get (utcnow wk) k location ck) = PNone \<longrightarrow>
            (\<forall>result w'. fetch source_k location wk = (Inr result, w')
                 \<and> 0 < max_entries (engine_cache e) \<longrightarrow>
               fst (fetch_data location srcs e w) k = Some (Val result))
          \<and> (\<forall>ex' w'. fetch source_k location wk = (Inl ex', w') \<longrightarrow>
               fst (fetch_data location srcs e w) k = Some (Val (error_payload ex'))))"
proof -
  have turn: "fst (fetch_data location srcs e w) k
                = fst (fetch_source (sources e) location k (bk, ck, wk)) k"
    using fetch_loop_last_turn[OF split last pre] by (simp add: fst_fetch_data)
  have cap: "max_entries ck = max_entries (engine_cache e)"
    using fetch_loop_capacity[OF pre] .
  have hit: "fst (CacheManager_get (utcnow wk) k location ck) \<noteq> PNone \<Longrightarrow>
            fst (fetch_data location srcs e w) k
              = Some (Val (fst (CacheManager_get (utcnow wk) k location ck)))"
    using fetch_source_hit[OF reg, of wk location ck bk] turn by simp
  have fetched: "\<And>result w'. fst (CacheManager_get (utcnow wk) k location ck) = PNone \<Longrightarrow>
            fetch source_k location wk = (Inr result, w') \<Longrightarrow> 0 < max_entries (engine_cache e) \<Longrightarrow>
            fst (fetch_data location srcs e w) k = Some (Val result)"
    using fetch_source_fetched[OF reg, of wk location ck _ _ bk] turn cap by simp
  have failed: "\<And>ex' w'. fst (CacheManager_get (utcnow wk) k location ck) = PNone \<Longrightarrow>
            fetch source_k location wk = (Inl ex', w') \<Longrightarrow>
            fst (fetch_data location srcs e w) k = Some (Val (error_payload ex'))"
    using fetch_source_failed[OF reg, of wk location ck _ _ bk] turn by simp
  show ?thesis
    using hit fetched failed by blast
qed

lemma engine_capacity:
  "max_entries (engine_cache (PollinatorEngine_init ttl)) = 1000"
  "max_entries (engine_cache (register_source s e)) = max_entries (engine_cache e)"
  "max_entries (engine_cache (register_algorithm a e)) = max_entries (engine_cache e)"
  by (simp_all add: PollinatorEngine_init_def CacheManager_init_def register_source_def
        register_algorithm_def)

lemma fetch_data_capacity:
  "max_entries (engine_cache (fst (snd (fetch_data location srcs e w)))) = max_entries (engine_cache e)"
proof -
  obtain bnd c w' where fin: "fetch_loop (sources e) location (requested_sources srcs e)
              ([''_location'' \<mapsto> Loc location], engine_cache e, w) = (bnd, c, w')"
    by (cases "fetch_loop (sources e) location (requested_sources srcs e)
              ([''_location'' \<mapsto> Loc location], engine_cache e, w)")
  show ?thesis
    using fetch_loop_capacity[OF fin] fin by (simp add: fetch_data_def)
qed

text \<open>
  Claim C2. Take any location and any requested list of source names, and a turn of
  the loop at which a registered source is fetched (its lookup returned \<open>None\<close>) and
  the fetch raises. Then \<open>fetch_data\<close> records the error payload with the text of the
  exception under the name of that source and goes on with the remaining names from
  there: the call returns a bundle, the error stays under the name unless the name is
  requested again later, and what the earlier turns put into the bundle is still there.
  The entry of every requested source in the bundle returned is the outcome of the last
  turn of that source alone, whatever the other sources did: the cached payload when
  its lookup hits, the payload it fetches when the lookup misses and the fetch returns
  (the cache having the positive capacity every engine is built with), and its own
  error payload when its fetch raises.
\<close>

theorem fetch_data_isolates_source_failures:
  assumes req: "requested_sources srcs e = before @ n # after"
      and pre: "fetch_loop (sources e) location before
                  ([''_location'' \<mapsto> Loc location], engine_cache e, w) = (b1, c1, w1)"
      and reg: "map_of (sources e) n = Some source"
      and miss: "fst (CacheManager_get (utcnow w1) n location c1) = PNone"
      and fail: "fetch source location w1 = (Inl ex, w2)"
  shows "fetch_data location srcs e w
           = (case fetch_loop (sources e) location after
                     (b1(n \<mapsto> Val (error_payload ex)),
                      snd (CacheManager_get (utcnow w1) n location c1), w2) of
                (bundle, c, w') \<Rightarrow> (bundle, e \<lparr> engine_cache := c \<rparr>, w'))
         \<and> (n \<notin> set after \<longrightarrow>
               fst (fetch_data location srcs e w) n = Some (Val (error_payload ex)))
         \<and> (\<forall>k. k \<noteq> n \<and> k \<notin> set after \<longrightarrow> fst (fetch_data location srcs e w) k = b1 k)
         \<and> (\<forall>k \<in> set after. map_of (sources e) k \<noteq> None \<longrightarrow>
               (\<exists>v. fst (fetch_data location srcs e w) k = Some (Val v)))
         \<and> (\<forall>mid k rest bk ck wk source_k.
               requested_sources srcs e = mid @ k # rest \<and> k \<notin> set rest
               \<and> fetch_loop (sources e) location mid
                    ([''_location'' \<mapsto> Loc location], engine_cache e, w) = (bk, ck, wk)
               \<and> map_of (sources e) k = Some source_k \<longrightarrow>
                 (fst (CacheManager_get (utcnow wk) k location ck) \<noteq> PNone \<longrightarrow>
                    fst (fetch_data location srcs e w) k
                      = Some (Val (fst (CacheManager_get (utcnow wk) k location ck))))
               \<and> (fst (CacheManager_get (utcnow wk) k location ck) = PNone \<longrightarrow>
                    (\<forall>result w'. fetch source_k location wk = (Inr result, w')
                         \<and> 0 < max_entries (engine_cache e) \<longrightarrow>
                       fst (fetch_data location srcs e w) k = Some (Val result))
                  \<and> (\<forall>ex' w'. fetch source_k location wk = (Inl ex', w') \<longrightarrow>
                       fst (fetch_data location srcs e w) k = Some (Val (error_payload ex')))))"
proof -
  let ?st = "(b1(n \<mapsto> Val (error_payload ex)), snd (CacheManager_get (utcnow w1) n location c1), w2)"
  have turn: "fetch_source (sources e) location n (b1, c1, w1) = ?st"
    using fetch_source_failed[OF reg miss fail] .
  have run: "fetch_loop (sources e) location (requested_sources srcs e)
               ([''_location'' \<mapsto> Loc location], engine_cache e, w)
             = fetch_loop (sources e) location after ?st"
    using pre turn by (simp add: req fetch_loop_append)
  obtain bnd c w' where fin: "fetch_loop (sources e) location after ?st = (bnd, c, w')"
    by (cases "fetch_loop (sources e) location after ?st")
  have fd: "fetch_data location srcs e w = (bnd, e \<lparr> engine_cache := c \<rparr>, w')"
    using run fin by (simp add: fetch_data_def)
  have frame: "\<And>k. k \<notin> set after \<Longrightarrow> bnd k = (b1(n \<mapsto> Val (error_payload ex))) k"
    using fetch_loop_frame[of _ after "sources e" location "b1(n \<mapsto> Val (error_payload ex))"
            "snd (CacheManager_get (utcnow w1) n location c1)" w2] fin by simp
  have later: "\<And>k. k \<in> set after \<Longrightarrow> map_of (sources e) k \<noteq> None \<Longrightarrow> \<exists>v. bnd k = Some (Val v)"
    using fetch_loop_entry[of "b1(n \<mapsto> Val (error_payload ex))" _ after "sources e" location
            "snd (CacheManager_get (utcnow w1) n location c1)" w2] fin by simp
  have first: "fetch_data location srcs e w
           = (case fetch_loop (sources e) location after ?st of
                (bundle, c, w') \<Rightarrow> (bundle, e \<lparr> engine_cache := c \<rparr>, w'))
         \<and> (n \<notin> set after \<longrightarrow>
               fst (fetch_data location srcs e w) n = Some (Val (error_payload ex)))
         \<and> (\<forall>k. k \<noteq> n \<and> k \<notin> set after \<longrightarrow> fst (fetch_data location srcs e w) k = b1 k)
         \<and> (\<forall>k \<in> set after. map_of (sources e) k \<noteq> None \<longrightarrow>
               (\<exists>v. fst (fetch_data location srcs e w) k = Some (Val v)))"
    using fd fin frame later by simp
  have turns: "\<forall>mid k rest bk ck wk source_k.
               requested_sources srcs e = mid @ k # rest \<and> k \<notin> set rest
               \<and> fetch_loop (sources e) location mid
                    ([''_location'' \<mapsto> Loc location], engine_cache e, w) = (bk, ck, wk)
               \<and> map_of (sources e) k = Some source_k \<longrightarrow>
                 (fst (CacheManager_get (utcnow wk) k location ck) \<noteq> PNone \<longrightarrow>
                    fst (fetch_data location srcs e w) k
                      = Some (Val (fst (CacheManager_get (utcnow wk) k location ck))))
               \<and> (fst (CacheManager_get (utcnow wk) k location ck) = PNone \<longrightarrow>
                    (\<forall>result w'. fetch source_k location wk = (Inr result, w')
                         \<and> 0 < max_entries (engine_cache e) \<longrightarrow>
                       fst (fetch_data location srcs e w) k = Some (Val result))
                  \<and> (\<forall>ex' w'. fetch source_k location wk = (Inl ex', w') \<longrightarrow>
                       fst (fetch_data location srcs e w) k = Some (Val (error_payload ex'))))"
  proof (intro allI impI)
    fix mid k rest bk ck wk source_k
    assume a: "requested_sources srcs e = mid @ k # rest \<and> k \<notin> set rest
               \<and> fetch_loop (sources e) location mid
                    ([''_location'' \<mapsto> Loc location], engine_cache e, w) = (bk, ck, wk)
               \<and> map_of (sources e) k = Some source_k"
    show "(fst (CacheManager_get (utcnow wk) k location ck) \<noteq> PNone \<longrightarrow>
                    fst (fetch_data location srcs e w) k
                      = Some (Val (fst (CacheManager_get (utcnow wk) k location ck))))
               \<and> (fst (CacheManager_get (utcnow wk) k location ck) = PNone \<longrightarrow>
                    (\<forall>result w'. fetch source_k location wk = (Inr result, w')
                         \<and> 0 < max_entries (engine_cache e) \<longrightarrow>
                       fst (fetch_data location srcs e w) k = Some (Val result))
                  \<and> (\<forall>ex' w'. fetch source_k location wk = (Inl ex', w') \<longrightarrow>
                       fst (fetch_data location srcs e w) k = Some (Val (error_payload ex'))))"
      using fetch_data_last_turn[of srcs e mid k rest location w bk ck wk source_k] a by blast
  qed
  show ?thesis
    using first turns by blast
qed

theorem fetch_data_isolates_source_failures_witness:
  "requested_sources None example_engine = [] @ ''bad'' # [''ok'']
   \<and> map_of (sources example_engine) ''bad'' = Some failing_source
   \<and> fst (CacheManager_get 0 ''bad'' example_location (engine_cache example_engine)) = PNone
   \<and> fetch failing_source example_location \<lparr> utcnow = 0, outside = () \<rparr>
       = (Inl (Exception ''boom''), \<lparr> utcnow = 10, outside = () \<rparr>)
   \<and> requested_sources None example_engine = [''bad''] @ ''ok'' # []
   \<and> map_of (sources example_engine) ''ok'' = Some working_source
   \<and> fetch working_source example_location \<lparr> utcnow = 10, outside = () \<rparr>
       = (Inr (PDict [(''v'', PNum 1)]), \<lparr> utcnow = 20, outside = () \<rparr>)
   \<and> max_entries (engine_cache example_engine) = 1000
   \<and> fst (fetch_data example_location None example_engine \<lparr> utcnow = 0, outside = () \<rparr>) ''bad''
       = Some (Val (PDict [(''error'', PStr ''boom'')]))
   \<and> fst (fetch_data example_location None example_engine \<lparr> utcnow = 0, outside = () \<rparr>) ''ok''
       = Some (Val (PDict [(''v'', PNum 1)]))
   \<and> fst (fetch_data example_location None example_engine \<lparr> utcnow = 0, outside = () \<rparr>) ''_location''
       = Some (Loc example_location)"
proof -
  let ?v = "\<lparr> utcnow = 0, outside = () \<rparr> :: unit world"
  let ?u = "\<lparr> utcnow = 10, outside = () \<rparr> :: unit world"
  let ?b = "[''_location'' \<mapsto> Loc example_location] :: data_bundle"
  let ?c = "(engine_cache example_engine)
              \<lparr> stats := \<lparr> hits = 0, misses = 1, evictions = 0 \<rparr> \<rparr>"
  have req: "requested_sources None example_engine = [] @ ''bad'' # [''ok'']"
    and req2: "requested_sources None example_engine = [''bad''] @ ''ok'' # []"
    by (simp_all add: requested_sources_def example_engine_def register_source_def
          failing_source_def working_source_def PollinatorEngine_init_def)
  have pre: "fetch_loop (sources example_engine) example_location [] (?b, engine_cache example_engine, ?v)
               = (?b, engine_cache example_engine, ?v)"
    by simp
  have reg: "map_of (sources example_engine) ''bad'' = Some failing_source"
    and reg2: "map_of (sources example_engine) ''ok'' = Some working_source"
    by (simp_all add: ex_defs)
  have miss: "fst (CacheManager_get (utcnow ?v) ''bad'' example_location (engine_cache example_engine))
                = PNone"
    by (simp add: ex_defs)
  have fail: "fetch failing_source example_location ?v = (Inl (Exception ''boom''), ?u)"
    by (simp add: failing_source_def)
  have pre2: "fetch_loop (sources example_engine) example_location [''bad'']
                (?b, engine_cache example_engine, ?v)
               = (?b(''bad'' \<mapsto> Val (error_payload (Exception ''boom''))), ?c, ?u)"
    by (simp add: ex_defs)
  have miss2: "fst (CacheManager_get (utcnow ?u) ''ok'' example_location ?c) = PNone"
    by (simp add: ex_defs)
  have fetch2: "fetch working_source example_location ?u
                  = (Inr (PDict [(''v'', PNum 1)]), \<lparr> utcnow = 20, outside = () \<rparr>)"
    by (simp add: working_source_def)
  have cap: "max_entries (engine_cache example_engine) = 1000"
    by (simp add: example_engine_def engine_capacity)
  note T = fetch_data_isolates_source_failures [OF req pre reg miss fail]
  have bad: "fst (fetch_data example_location None example_engine ?v) ''bad''
               = Some (Val (error_payload (Exception ''boom'')))"
    using T [THEN conjunct2, THEN conjunct1] by simp
  have loc: "fst (fetch_data example_location None example_engine ?v) ''_location''
               = Some (Loc example_location)"
    using T [THEN conjunct2, THEN conjunct2, THEN conjunct1, THEN spec, of "''_location''"]
    by simp
  have turns: "\<And>mid k rest bk ck wk source_k result w'.
      requested_sources None example_engine = mid @ k # rest \<Longrightarrow> k \<notin> set rest \<Longrightarrow>
      fetch_loop (sources example_engine) example_location mid (?b, engine_cache example_engine, ?v)
        = (bk, ck, wk) \<Longrightarrow>
      map_of (sources example_engine) k = Some source_k \<Longrightarrow>
      fst (CacheManager_get (utcnow wk) k example_location ck) = PNone \<Longrightarrow>
      fetch source_k example_location wk = (Inr result, w') \<Longrightarrow>
      0 < max_entries (engine_cache example_engine) \<Longrightarrow>
      fst (fetch_data example_location None example_engine ?v) k = Some (Val result)"
    using T [THEN conjunct2, THEN conjunct2, THEN conjunct2, THEN conjunct2] by blast
  have ok: "fst (fetch_data example_location None example_engine ?v) ''ok''
              = Some (Val (PDict [(''v'', PNum 1)]))"
    using turns [OF req2 _ pre2 reg2 miss2 fetch2] cap by simp
  show ?thesis
    using req req2 reg reg2 miss fail fetch2 cap bad ok loc by (simp add: error_payload_def)
qed

text \<open>
  Claim C9 fails as stated: the lookup that precedes the fetch deletes an expired entry
  of the key, so after a failed fetch the entry is not as it was before the call.
\<close>

theorem failed_fetch_expired_entry_counterexample:
  "map_of (cache (engine_cache stale_engine)) (make_key ''bad'' (grid_hash example_location))
     = Some \<lparr> data = PStr ''old'', timestamp = 0 \<rparr>
   \<and> fst (fetch_data example_location (Some [''bad'']) stale_engine
            \<lparr> utcnow = 25 * 3600000000, outside = () \<rparr>) ''bad''
       = Some (Val (error_payload (Exception ''boom'')))
   \<and> map_of (cache (engine_cache (fst (snd
          (fetch_data example_location (Some [''bad'']) stale_engine
             \<lparr> utcnow = 25 * 3600000000, outside = () \<rparr>)))))
        (make_key ''bad'' (grid_hash example_location)) = None"
  by (simp add: ex_defs)

text \<open>
  Claim C9, amended. When the fetch of a source raises, \<open>fetch_data\<close> writes nothing to
  the cache for the key of that source and fingerprint. The cache manager is left as
  the preceding lookup left it: that lookup deletes an expired entry of the key and
  adds nothing, the eviction counter is unchanged, and the store is unchanged when the
  key had no entry. When the name is not requested again in the call, the cache
  returned holds no payload under the key (an entry there can only be one that was
  already there and holds \<open>None\<close>), so every later lookup of the key returns \<open>None\<close> and
  a later \<open>fetch_data\<close> for the location invokes the fetch again.
\<close>

theorem failed_fetch_is_not_cached:
  assumes req: "requested_sources srcs e = before @ n # after"
      and pre: "fetch_loop (sources e) location before
                  ([''_location'' \<mapsto> Loc location], engine_cache e, w) = (b1, c1, w1)"
      and reg: "map_of (sources e) n = Some source"
      and miss: "fst (CacheManager_get (utcnow w1) n location c1) = PNone"
      and fail: "fetch source location w1 = (Inl ex, w2)"
      and last: "n \<notin> set after"
  shows "fetch_source (sources e) location n (b1, c1, w1)
           = (b1(n \<mapsto> Val (error_payload ex)),
              snd (CacheManager_get (utcnow w1) n location c1), w2)
         \<and> set (cache (snd (CacheManager_get (utcnow w1) n location c1))) \<subseteq> set (cache c1)
         \<and> evictions (stats (snd (CacheManager_get (utcnow w1) n location c1)))
             = evictions (stats c1)
         \<and> (map_of (cache c1) (make_key n (grid_hash location)) = None \<longrightarrow>
               cache (snd (CacheManager_get (utcnow w1) n location c1)) = cache c1)
         \<and> (\<forall>en. map_of (cache (engine_cache (fst (snd (fetch_data location srcs e w)))))
                    (make_key n (grid_hash location)) = Some en \<longrightarrow>
                  map_of (cache c1) (make_key n (grid_hash location)) = Some en \<and> data en = PNone)
         \<and> (\<forall>later. fst (CacheManager_get later n location
                            (engine_cache (fst (snd (fetch_data location srcs e w))))) = PNone)"
proof -
  let ?c1' = "snd (CacheManager_get (utcnow w1) n location c1)"
  let ?st = "(b1(n \<mapsto> Val (error_payload ex)), ?c1', w2)"
  let ?key = "make_key n (grid_hash location)"
  have turn: "fetch_source (sources e) location n (b1, c1, w1) = ?st"
    using fetch_source_failed[OF reg miss fail] .
  have run: "fetch_loop (sources e) location (requested_sources srcs e)
               ([''_location'' \<mapsto> Loc location], engine_cache e, w)
             = fetch_loop (sources e) location after ?st"
    using pre turn by (simp add: req fetch_loop_append)
  obtain bnd c w' where fin: "fetch_loop (sources e) location after ?st = (bnd, c, w')"
    by (cases "fetch_loop (sources e) location after ?st")
  have fd: "engine_cache (fst (snd (fetch_data location srcs e w))) = c"
    using run fin by (simp add: fetch_data_def)
  have keep: "map_of (cache c) ?key = map_of (cache ?c1') ?key \<or> map_of (cache c) ?key = None"
    using fetch_loop_other_key[OF last fin] .
  have entry: "\<And>en. map_of (cache c) ?key = Some en \<Longrightarrow>
                 map_of (cache c1) ?key = Some en \<and> data en = PNone"
  proof -
    fix en assume en: "map_of (cache c) ?key = Some en"
    then have "map_of (cache ?c1') ?key = Some en" using keep by auto
    then show "map_of (cache c1) ?key = Some en \<and> data en = PNone"
      using get_none_leaves(4)[OF miss] by simp
  qed
  have again: "\<And>later. fst (CacheManager_get later n location c) = PNone"
    using get_of_none_payload[of c n location] entry by simp
  show ?thesis
    using turn get_none_leaves(1,2,3)[OF miss] entry again by (simp add: fd)
qed

theorem failed_fetch_is_not_cached_witness:
  "requested_sources (Some [''bad'']) stale_engine = [] @ ''bad'' # []
   \<and> map_of (sources stale_engine) ''bad'' = Some failing_source
   \<and> fst (CacheManager_get (25 * 3600000000) ''bad'' example_location (engine_cache stale_engine))
       = PNone
   \<and> fetch failing_source example_location \<lparr> utcnow = 25 * 3600000000, outside = () \<rparr>
       = (Inl (Exception ''boom''), \<lparr> utcnow = 25 * 3600000000 + 10, outside = () \<rparr>)
   \<and> fst (CacheManager_get (25 * 3600000000 + 20) ''bad'' example_location
          (engine_cache (fst (snd
             (fetch_data example_location (Some [''bad'']) stale_engine
                \<lparr> utcnow = 25 * 3600000000, outside = () \<rparr>))))) = PNone
   \<and> map_of (cache (engine_cache example_engine)) (make_key ''bad'' (grid_hash example_location))
       = None
   \<and> cache (snd (CacheManager_get 0 ''bad'' example_location (engine_cache example_engine)))
       = cache (engine_cache example_engine)"
proof -
  let ?w = "\<lparr> utcnow = 25 * 3600000000, outside = () \<rparr> :: unit world"
  let ?v = "\<lparr> utcnow = 0, outside = () \<rparr> :: unit world"
  have req: "requested_sources (Some [''bad'']) stale_engine = [] @ ''bad'' # []"
    and req0: "requested_sources (Some [''bad'']) example_engine = [] @ ''bad'' # []"
    by (simp_all add: requested_sources_def)
  have pre: "fetch_loop (sources stale_engine) example_location []
               ([''_location'' \<mapsto> Loc example_location], engine_cache stale_engine, ?w)
             = ([''_location'' \<mapsto> Loc example_location], engine_cache stale_engine, ?w)"
    and pre0: "fetch_loop (sources example_engine) example_location []
               ([''_location'' \<mapsto> Loc example_location], engine_cache example_engine, ?v)
             = ([''_location'' \<mapsto> Loc example_location], engine_cache example_engine, ?v)"
    by simp_all
  have reg: "map_of (sources stale_engine) ''bad'' = Some failing_source"
    and reg0: "map_of (sources example_engine) ''bad'' = Some failing_source"
    by (simp_all add: ex_defs)
  have miss: "fst (CacheManager_get (utcnow ?w) ''bad'' example_location (engine_cache stale_engine))
                = PNone"
    by (simp add: ex_defs)
  have miss0: "fst (CacheManager_get (utcnow ?v) ''bad'' example_location (engine_cache example_engine))
                = PNone"
    by (simp add: ex_defs)
  have fail: "fetch failing_source example_location ?w
                = (Inl (Exception ''boom''), \<lparr> utcnow = 25 * 3600000000 + 10, outside = () \<rparr>)"
    and fail0: "fetch failing_source example_location ?v
                = (Inl (Exception ''boom''), \<lparr> utcnow = 10, outside = () \<rparr>)"
    by (simp_all add: failing_source_def)
  have last: "''bad'' \<notin> set []"
    by simp
  have none0: "map_of (cache (engine_cache example_engine))
                 (make_key ''bad'' (grid_hash example_location)) = None"
    by (simp add: ex_defs)
  have again: "fst (CacheManager_get (25 * 3600000000 + 20) ''bad'' example_location
          (engine_cache (fst (snd
             (fetch_data example_location (Some [''bad'']) stale_engine ?w))))) = PNone"
    using failed_fetch_is_not_cached [OF req pre reg miss fail last] by blast
  have same: "cache (snd (CacheManager_get 0 ''bad'' example_location (engine_cache example_engine)))
       = cache (engine_cache example_engine)"
    using failed_fetch_is_not_cached [OF req0 pre0 reg0 miss0 fail0 last] none0 by simp
  show ?thesis
    using req reg miss fail again none0 same by simp
qed

end
